theory Spec2Isabelle
  imports Main "HOL-Library.Word"
begin

text \<open>
  The scene manager of the CS-330 final project (\<^verbatim>\<open>SceneManager.cpp\<close>): the texture registry
  (\<^verbatim>\<open>CreateGLTexture\<close>, \<^verbatim>\<open>BindGLTextures\<close>, \<^verbatim>\<open>DestroyGLTextures\<close>, \<^verbatim>\<open>FindTextureID\<close>,
  \<^verbatim>\<open>FindTextureSlot\<close>), the material registry (\<^verbatim>\<open>DefineObjectMaterials\<close>, \<^verbatim>\<open>FindMaterial\<close>)
  and the setters that forward shading state to the shader manager. Each C++ function is
  a function on an explicit state; the loops are recursive functions over their locals.
\<close>

section \<open>Data model of SceneManager.cpp\<close>

text \<open>
  The header \<^verbatim>\<open>SceneManager.h\<close> is not part of the sources; the members below are the
  ones \<^verbatim>\<open>SceneManager.cpp\<close> reads and writes, with the types its statements force:
  \<^verbatim>\<open>glGenTextures(1, &m_textureIDs[i].ID)\<close> makes \<^verbatim>\<open>ID\<close> a \<^verbatim>\<open>GLuint\<close>, the loops compare
  \<^verbatim>\<open>int index\<close> with \<^verbatim>\<open>m_loadedTextures\<close>, and \<^verbatim>\<open>m_objectMaterials\<close> is used through
  \<^verbatim>\<open>size()\<close>, \<^verbatim>\<open>operator[]\<close> and \<^verbatim>\<open>push_back\<close>.

  A \<^verbatim>\<open>float\<close> is only ever stored and copied by the functions modelled here, never
  computed with, so it is carried as its IEEE-754 binary32 bit pattern.
\<close>

type_synonym GLuint = "32 word"
type_synonym float32 = "32 word"
type_synonym vec2 = "float32 \<times> float32"
type_synonym vec3 = "float32 \<times> float32 \<times> float32"
type_synonym vec4 = "float32 \<times> float32 \<times> float32 \<times> float32"

record TEXTURE_INFO =
  ID :: GLuint
  tag :: string

record OBJECT_MATERIAL =
  diffuseColor :: vec3
  specularColor :: vec3
  shininess :: float32
  tag :: string

text \<open>
  C++ has no checked failure on these paths: an array access outside the array and a call
  through a null pointer are undefined behaviour. The model makes each one a value.
\<close>

datatype fault = OutOfBounds | NullPointer

text \<open>
  The shader manager is an external collaborator. What the scene manager does to it is a
  sequence of uniform-setter calls, so the pointee is the list of calls received so far
  (latest last), and the pointer \<^verbatim>\<open>m_pShaderManager\<close> is \<open>None\<close> when it is \<^verbatim>\<open>NULL\<close>.
\<close>

datatype shader_call =
    setIntValue string int
  | setFloatValue string float32
  | setVec2Value string vec2
  | setVec3Value string vec3
  | setVec4Value string vec4
  | setSampler2DValue string int

record SceneManager =
  m_pShaderManager :: "shader_call list option"
  m_textureIDs :: "TEXTURE_INFO list"
  m_loadedTextures :: int
  m_objectMaterials :: "OBJECT_MATERIAL list"

text \<open>
  \<open>m_textureIDs\<close> is the fixed-size array of the class: its length is the array's declared
  size, which the missing header fixes and which stays a parameter here. The entries at
  indices below \<open>m_loadedTextures\<close> are the registered textures, in load order.
\<close>

definition registered :: "SceneManager \<Rightarrow> TEXTURE_INFO list" where
  "registered s = take (nat (m_loadedTextures s)) (m_textureIDs s)"

definition g_ColorValueName :: string where "g_ColorValueName = ''objectColor''"
definition g_TextureValueName :: string where "g_TextureValueName = ''objectTexture''"
definition g_UseTextureName :: string where "g_UseTextureName = ''bUseTexture''"

section \<open>Tag lookups\<close>

text \<open>
  \<^verbatim>\<open>FindTextureID\<close>: the loop state is the triple of locals
  \<^verbatim>\<open>(textureID, index, bFound)\<close>. The assignment \<^verbatim>\<open>textureID = m_textureIDs[index].ID\<close>
  converts the unsigned 32-bit name to \<^verbatim>\<open>int\<close>, which is \<open>sint\<close>.
\<close>

function FindTextureID_while :: "SceneManager \<Rightarrow> string \<Rightarrow> int \<times> int \<times> bool \<Rightarrow> fault + int" where
  "FindTextureID_while s tg (textureID, index, bFound) =
     (if index < m_loadedTextures s \<and> bFound = False then
        (if index < 0 \<or> int (length (m_textureIDs s)) \<le> index then Inl OutOfBounds
         else if TEXTURE_INFO.tag (m_textureIDs s ! nat index) = tg
           then FindTextureID_while s tg (sint (ID (m_textureIDs s ! nat index)), index, True)
           else FindTextureID_while s tg (textureID, index + 1, bFound))
      else Inr textureID)"
  by pat_completeness auto
termination
  by (relation "measure (\<lambda>(s, tg, textureID, index, bFound).
        2 * nat (m_loadedTextures s - index) + (if bFound then 0 else 1))") auto

definition FindTextureID :: "SceneManager \<Rightarrow> string \<Rightarrow> fault + int" where
  "FindTextureID s tg = FindTextureID_while s tg (- 1, 0, False)"

function FindTextureSlot_while :: "SceneManager \<Rightarrow> string \<Rightarrow> int \<times> int \<times> bool \<Rightarrow> fault + int" where
  "FindTextureSlot_while s tg (textureSlot, index, bFound) =
     (if index < m_loadedTextures s \<and> bFound = False then
        (if index < 0 \<or> int (length (m_textureIDs s)) \<le> index then Inl OutOfBounds
         else if TEXTURE_INFO.tag (m_textureIDs s ! nat index) = tg
           then FindTextureSlot_while s tg (index, index, True)
           else FindTextureSlot_while s tg (textureSlot, index + 1, bFound))
      else Inr textureSlot)"
  by pat_completeness auto
termination
  by (relation "measure (\<lambda>(s, tg, textureSlot, index, bFound).
        2 * nat (m_loadedTextures s - index) + (if bFound then 0 else 1))") auto

definition FindTextureSlot :: "SceneManager \<Rightarrow> string \<Rightarrow> fault + int" where
  "FindTextureSlot s tg = FindTextureSlot_while s tg (- 1, 0, False)"

text \<open>
  \<^verbatim>\<open>FindMaterial\<close> returns a \<^verbatim>\<open>bool\<close> and writes through the reference parameter
  \<^verbatim>\<open>material\<close>; the model returns both. A match copies three fields and leaves the
  caller's \<^verbatim>\<open>tag\<close> field alone. The loop guard keeps \<^verbatim>\<open>index\<close> inside the vector.
\<close>

function FindMaterial_while :: "SceneManager \<Rightarrow> string \<Rightarrow> int \<times> bool \<times> OBJECT_MATERIAL \<Rightarrow> OBJECT_MATERIAL" where
  "FindMaterial_while s tg (index, bFound, material) =
     (if index < int (length (m_objectMaterials s)) \<and> bFound = False then
        (if OBJECT_MATERIAL.tag (m_objectMaterials s ! nat index) = tg
           then FindMaterial_while s tg (index, True, material
                  \<lparr>diffuseColor := diffuseColor (m_objectMaterials s ! nat index),
                   specularColor := specularColor (m_objectMaterials s ! nat index),
                   shininess := shininess (m_objectMaterials s ! nat index)\<rparr>)
           else FindMaterial_while s tg (index + 1, bFound, material))
      else material)"
  by pat_completeness auto
termination
  by (relation "measure (\<lambda>(s, tg, index, bFound, material).
        2 * nat (int (length (m_objectMaterials s)) - index) + (if bFound then 0 else 1))") auto

definition FindMaterial :: "SceneManager \<Rightarrow> string \<Rightarrow> OBJECT_MATERIAL \<Rightarrow> bool \<times> OBJECT_MATERIAL" where
  "FindMaterial s tg material =
     (if length (m_objectMaterials s) = 0 then (False, material)
      else (True, FindMaterial_while s tg (0, False, material)))"

section \<open>The OpenGL context and the image decoder\<close>

text \<open>
  OpenGL and \<^verbatim>\<open>stb_image\<close> are external. The context keeps what the calls of this file
  change: the texture names handed out, the active texture unit, the texture bound to
  \<^verbatim>\<open>GL_TEXTURE_2D\<close> on each unit, and the texture objects. Which unused name
  \<^verbatim>\<open>glGenTextures\<close> returns is the driver's choice, \<open>gl_gen\<close>; how many units exist is
  \<open>gl_max_units\<close>.
\<close>

datatype GLenum = GL_REPEAT | GL_LINEAR | GL_RGB | GL_RGBA | GL_RGB8 | GL_RGBA8

datatype pname = GL_TEXTURE_WRAP_S | GL_TEXTURE_WRAP_T | GL_TEXTURE_MIN_FILTER | GL_TEXTURE_MAG_FILTER

record stbi_image =
  width :: int
  height :: int
  colorChannels :: int
  pixels :: "8 word list"

record texobj =
  tex_parameter :: "pname \<Rightarrow> GLenum option"
  tex_image :: "(GLenum \<times> int \<times> int \<times> GLenum \<times> 8 word list) option"
  tex_mipmap :: bool

record GL =
  gl_gen :: "GLuint list \<Rightarrow> GLuint"
  gl_names :: "GLuint list"
  gl_max_units :: nat
  gl_active :: nat
  gl_bound :: "nat \<Rightarrow> GLuint"
  gl_texture :: "GLuint \<Rightarrow> texobj"

definition glGenTextures :: "GL \<Rightarrow> GLuint \<times> GL" where
  "glGenTextures g = (gl_gen g (gl_names g), g\<lparr>gl_names := gl_names g @ [gl_gen g (gl_names g)]\<rparr>)"

text \<open>An index that is not a texture unit is \<^verbatim>\<open>GL_INVALID_ENUM\<close>: the call changes nothing.\<close>

definition glActiveTexture :: "int \<Rightarrow> GL \<Rightarrow> GL" where
  "glActiveTexture i g =
     (if 0 \<le> i \<and> i < int (gl_max_units g) then g\<lparr>gl_active := nat i\<rparr> else g)"

definition glBindTexture :: "GLuint \<Rightarrow> GL \<Rightarrow> GL" where
  "glBindTexture name g = g\<lparr>gl_bound := (gl_bound g)(gl_active g := name)\<rparr>"

definition current_texture :: "GL \<Rightarrow> GLuint" where
  "current_texture g = gl_bound g (gl_active g)"

definition glTexParameteri :: "pname \<Rightarrow> GLenum \<Rightarrow> GL \<Rightarrow> GL" where
  "glTexParameteri pn v g =
     g\<lparr>gl_texture := (gl_texture g)(current_texture g :=
          (gl_texture g (current_texture g))
            \<lparr>tex_parameter := (tex_parameter (gl_texture g (current_texture g)))(pn := Some v)\<rparr>)\<rparr>"

definition glTexImage2D :: "GLenum \<Rightarrow> int \<Rightarrow> int \<Rightarrow> GLenum \<Rightarrow> 8 word list \<Rightarrow> GL \<Rightarrow> GL" where
  "glTexImage2D internalformat w h format data g =
     g\<lparr>gl_texture := (gl_texture g)(current_texture g :=
          (gl_texture g (current_texture g))\<lparr>tex_image := Some (internalformat, w, h, format, data)\<rparr>)\<rparr>"

definition glGenerateMipmap :: "GL \<Rightarrow> GL" where
  "glGenerateMipmap g =
     g\<lparr>gl_texture := (gl_texture g)(current_texture g :=
          (gl_texture g (current_texture g))\<lparr>tex_mipmap := True\<rparr>)\<rparr>"

text \<open>The lines written to \<^verbatim>\<open>std::cout\<close> and \<^verbatim>\<open>std::cerr\<close>, as data.\<close>

datatype message =
    Successfully_loaded_image string int int int
  | Not_implemented_to_handle_image int
  | Could_not_load_image string
  | Error_loading_texture_for string

text \<open>The running program: the scene manager object, the GL context and the console.\<close>

record Process =
  mgr :: SceneManager
  gl :: GL
  console :: "message list"

section \<open>Texture loading, binding and release\<close>

text \<open>
  \<^verbatim>\<open>CreateGLTexture\<close>, lines 60 to 124. The parameter \<open>stbi_load\<close> is the decoder applied to
  the file system, with the vertical flip the function asks for: \<open>None\<close> is the null
  pointer it returns for a file that does not decode.

  The function is cut where the source branches. \<open>CreateGLTexture_register\<close> is lines 105
  to 117, reached for three and four channels: it writes \<^verbatim>\<open>m_textureIDs[m_loadedTextures]\<close>,
  which is outside the array when the count is not an index of it. An in-range write
  leaves the count below the array's size, so the increment cannot overflow an \<^verbatim>\<open>int\<close>
  for any array a C++ program can declare, and the count is an unbounded \<open>int\<close> here.
  The two assignments to the entry give it both of its fields.
\<close>

definition CreateGLTexture_register :: "GLuint \<Rightarrow> string \<Rightarrow> Process \<Rightarrow> fault + bool \<times> Process" where
  "CreateGLTexture_register textureID tg p =
     (let g = glBindTexture 0 (glGenerateMipmap (gl p));
          s = mgr p;
          n = m_loadedTextures s
      in if n < 0 \<or> int (length (m_textureIDs s)) \<le> n then Inl OutOfBounds
         else Inr (True, p\<lparr>mgr := s\<lparr>m_textureIDs :=
                                      (m_textureIDs s)[nat n := \<lparr>ID = textureID, tag = tg\<rparr>],
                                    m_loadedTextures := n + 1\<rparr>,
                            gl := g\<rparr>))"

definition CreateGLTexture :: "(string \<Rightarrow> stbi_image option) \<Rightarrow> string \<Rightarrow> string \<Rightarrow> Process \<Rightarrow> fault + bool \<times> Process" where
  "CreateGLTexture stbi_load filename tg p =
     (case stbi_load filename of
        Some img \<Rightarrow>
          (let out = console p @ [Successfully_loaded_image filename (width img) (height img) (colorChannels img)];
               (textureID, g1) = glGenTextures (gl p);
               g2 = glBindTexture textureID g1;
               g3 = glTexParameteri GL_TEXTURE_WRAP_S GL_REPEAT g2;
               g4 = glTexParameteri GL_TEXTURE_WRAP_T GL_REPEAT g3;
               g5 = glTexParameteri GL_TEXTURE_MIN_FILTER GL_LINEAR g4;
               g6 = glTexParameteri GL_TEXTURE_MAG_FILTER GL_LINEAR g5
           in if colorChannels img = 3 then
                CreateGLTexture_register textureID tg
                  (p\<lparr>gl := glTexImage2D GL_RGB8 (width img) (height img) GL_RGB (pixels img) g6,
                     console := out\<rparr>)
              else if colorChannels img = 4 then
                CreateGLTexture_register textureID tg
                  (p\<lparr>gl := glTexImage2D GL_RGBA8 (width img) (height img) GL_RGBA (pixels img) g6,
                     console := out\<rparr>)
              else
                Inr (False, p\<lparr>gl := g6,
                              console := out @ [Not_implemented_to_handle_image (colorChannels img)]\<rparr>))
      | None \<Rightarrow> Inr (False, p\<lparr>console := console p @ [Could_not_load_image filename]\<rparr>))"

text \<open>\<^verbatim>\<open>BindGLTextures\<close>: the \<^verbatim>\<open>for\<close> loop over \<^verbatim>\<open>i\<close>, from the value of \<^verbatim>\<open>i\<close> given.\<close>

function BindGLTextures_for :: "SceneManager \<Rightarrow> int \<Rightarrow> GL \<Rightarrow> fault + GL" where
  "BindGLTextures_for s i g =
     (if i < m_loadedTextures s then
        (if i < 0 \<or> int (length (m_textureIDs s)) \<le> i then Inl OutOfBounds
         else BindGLTextures_for s (i + 1)
                (glBindTexture (ID (m_textureIDs s ! nat i)) (glActiveTexture i g)))
      else Inr g)"
  by pat_completeness auto
termination
  by (relation "measure (\<lambda>(s, i, g). nat (m_loadedTextures s - i))") auto

definition BindGLTextures :: "Process \<Rightarrow> fault + Process" where
  "BindGLTextures p =
     (case BindGLTextures_for (mgr p) 0 (gl p) of
        Inl e \<Rightarrow> Inl e
      | Inr g \<Rightarrow> Inr (p\<lparr>gl := g\<rparr>))"

text \<open>
  \<^verbatim>\<open>DestroyGLTextures\<close>: the body of the loop is the one call
  \<^verbatim>\<open>glGenTextures(1, &m_textureIDs[i].ID)\<close>, which stores a newly generated name over the
  registered one. The count is read again at every test of the loop and the body does not
  change it.
\<close>

definition DestroyGLTextures_body :: "int \<Rightarrow> Process \<Rightarrow> Process" where
  "DestroyGLTextures_body i p =
     p\<lparr>mgr := (mgr p)\<lparr>m_textureIDs :=
                 (m_textureIDs (mgr p))[nat i :=
                    (m_textureIDs (mgr p) ! nat i)\<lparr>ID := fst (glGenTextures (gl p))\<rparr>]\<rparr>,
       gl := snd (glGenTextures (gl p))\<rparr>"

function DestroyGLTextures_for :: "int \<Rightarrow> Process \<Rightarrow> fault + Process" where
  "DestroyGLTextures_for i p =
     (if i < m_loadedTextures (mgr p) then
        (if i < 0 \<or> int (length (m_textureIDs (mgr p))) \<le> i then Inl OutOfBounds
         else DestroyGLTextures_for (i + 1) (DestroyGLTextures_body i p))
      else Inr p)"
  by pat_completeness auto
termination
  by (relation "measure (\<lambda>(i, p). nat (m_loadedTextures (mgr p) - i))")
     (auto simp: DestroyGLTextures_body_def)

definition DestroyGLTextures :: "Process \<Rightarrow> fault + Process" where
  "DestroyGLTextures p = DestroyGLTextures_for 0 p"

text \<open>
  \<^verbatim>\<open>LoadSceneTextures\<close> calls \<^verbatim>\<open>CreateGLTexture\<close> once per texture, reports a \<^verbatim>\<open>false\<close>
  return on \<^verbatim>\<open>std::cerr\<close> and goes on with the next one; then it binds. \<open>LoadTextures\<close> is
  that sequence of calls for any list of file names and tags, \<open>LoadAndBind\<close> the sequence
  followed by \<^verbatim>\<open>BindGLTextures\<close>, and \<^verbatim>\<open>LoadSceneTextures\<close> is \<open>LoadAndBind\<close> on the seven
  textures of the scene.
\<close>

fun LoadTextures :: "(string \<Rightarrow> stbi_image option) \<Rightarrow> (string \<times> string) list \<Rightarrow> Process \<Rightarrow> fault + Process" where
  "LoadTextures stbi_load [] p = Inr p"
| "LoadTextures stbi_load ((filename, tg) # rest) p =
     (case CreateGLTexture stbi_load filename tg p of
        Inl e \<Rightarrow> Inl e
      | Inr (bReturn, p') \<Rightarrow>
          LoadTextures stbi_load rest
            (if \<not> bReturn then p'\<lparr>console := console p' @ [Error_loading_texture_for tg]\<rparr> else p'))"

definition scene_textures :: "(string \<times> string) list" where
  "scene_textures =
     [(''textures/wood2.jpg'', ''floor''),
      (''textures/Texturelabs_Glass_134S.jpg'', ''tbottle''),
      (''textures/metalbottle.jpg'', ''bottle''),
      (''textures/tabasco.png'', ''tlabel''),
      (''textures/Texturelabs_Paper_334S.jpg'', ''hdrive''),
      (''textures/mouth.jpg'', ''smile''),
      (''textures/coffee.png'', ''coffee'')]"

definition LoadAndBind :: "(string \<Rightarrow> stbi_image option) \<Rightarrow> (string \<times> string) list \<Rightarrow> Process \<Rightarrow> fault + Process" where
  "LoadAndBind stbi_load loads p =
     (case LoadTextures stbi_load loads p of
        Inl e \<Rightarrow> Inl e
      | Inr p' \<Rightarrow> BindGLTextures p')"

definition LoadSceneTextures :: "(string \<Rightarrow> stbi_image option) \<Rightarrow> Process \<Rightarrow> fault + Process" where
  "LoadSceneTextures stbi_load p = LoadAndBind stbi_load scene_textures p"

text \<open>A file loads when it decodes to three or four channels.\<close>

definition loadable :: "(string \<Rightarrow> stbi_image option) \<Rightarrow> string \<Rightarrow> bool" where
  "loadable stbi_load filename =
     (case stbi_load filename of
        None \<Rightarrow> False
      | Some img \<Rightarrow> colorChannels img = 3 \<or> colorChannels img = 4)"

text \<open>The tags of the loads that succeed, in load order.\<close>

definition loaded_tags :: "(string \<Rightarrow> stbi_image option) \<Rightarrow> (string \<times> string) list \<Rightarrow> string list" where
  "loaded_tags stbi_load loads = map snd (filter (\<lambda>(filename, tg). loadable stbi_load filename) loads)"

text \<open>
  The textures the loads create, in load order: for every call of \<^verbatim>\<open>CreateGLTexture\<close> in
  the sequence that returns \<^verbatim>\<open>true\<close>, the name that the call's \<^verbatim>\<open>glGenTextures\<close> generated
  (its result on the GL context the call started in) with the tag the call was given.
  The state is threaded through the calls as \<open>LoadTextures\<close> threads it.
\<close>

fun loaded_entries :: "(string \<Rightarrow> stbi_image option) \<Rightarrow> (string \<times> string) list \<Rightarrow> Process \<Rightarrow> TEXTURE_INFO list" where
  "loaded_entries stbi_load [] p = []"
| "loaded_entries stbi_load ((filename, tg) # rest) p =
     (case CreateGLTexture stbi_load filename tg p of
        Inl e \<Rightarrow> []
      | Inr (bReturn, p') \<Rightarrow>
          (if bReturn then [\<lparr>ID = fst (glGenTextures (gl p)), tag = tg\<rparr>] else [])
          @ loaded_entries stbi_load rest
              (if \<not> bReturn then p'\<lparr>console := console p' @ [Error_loading_texture_for tg]\<rparr> else p'))"

text \<open>
  The same entries from the texture names alone. A file that decodes makes its call
  generate one name, whether or not the channel count is then accepted; a call that
  returns \<^verbatim>\<open>true\<close> registers that name. \<open>gen\<close> is the driver's choice of name and \<open>names\<close>
  the names handed out so far.
\<close>

fun generated_entries :: "(string \<Rightarrow> stbi_image option) \<Rightarrow> (GLuint list \<Rightarrow> GLuint) \<Rightarrow> GLuint list \<Rightarrow> (string \<times> string) list \<Rightarrow> TEXTURE_INFO list" where
  "generated_entries stbi_load gen names [] = []"
| "generated_entries stbi_load gen names ((filename, tg) # rest) =
     (case stbi_load filename of
        None \<Rightarrow> generated_entries stbi_load gen names rest
      | Some img \<Rightarrow>
          (if colorChannels img = 3 \<or> colorChannels img = 4
           then [\<lparr>ID = gen names, tag = tg\<rparr>] else [])
          @ generated_entries stbi_load gen (names @ [gen names]) rest)"

section \<open>Shading state setters\<close>

text \<open>
  Each setter returns the scene manager with the calls it made appended to the shader
  manager's list, or the fault of calling through a null \<^verbatim>\<open>m_pShaderManager\<close>.
  \<^verbatim>\<open>setIntValue(g_UseTextureName, false)\<close> passes the \<^verbatim>\<open>bool\<close> as the \<^verbatim>\<open>int\<close> 0.
\<close>

definition SetShaderColor :: "float32 \<Rightarrow> float32 \<Rightarrow> float32 \<Rightarrow> float32 \<Rightarrow> SceneManager \<Rightarrow> fault + SceneManager" where
  "SetShaderColor redColorValue greenColorValue blueColorValue alphaValue s =
     (case m_pShaderManager s of
        Some calls \<Rightarrow>
          Inr (s\<lparr>m_pShaderManager := Some (calls @
                 [setIntValue g_UseTextureName 0,
                  setVec4Value g_ColorValueName
                    (redColorValue, greenColorValue, blueColorValue, alphaValue)])\<rparr>)
      | None \<Rightarrow> Inr s)"

definition SetShaderTexture :: "string \<Rightarrow> SceneManager \<Rightarrow> fault + SceneManager" where
  "SetShaderTexture textureTag s =
     (case m_pShaderManager s of
        Some calls \<Rightarrow>
          (case FindTextureSlot s textureTag of
             Inl e \<Rightarrow> Inl e
           | Inr textureID \<Rightarrow>
               Inr (s\<lparr>m_pShaderManager := Some (calls @
                      [setIntValue g_UseTextureName 1,
                       setSampler2DValue g_TextureValueName textureID])\<rparr>))
      | None \<Rightarrow> Inr s)"

definition SetTextureUVScale :: "float32 \<Rightarrow> float32 \<Rightarrow> SceneManager \<Rightarrow> fault + SceneManager" where
  "SetTextureUVScale u v s =
     (case m_pShaderManager s of
        Some calls \<Rightarrow> Inr (s\<lparr>m_pShaderManager := Some (calls @ [setVec2Value ''UVscale'' (u, v)])\<rparr>)
      | None \<Rightarrow> Inr s)"

text \<open>
  \<^verbatim>\<open>SetShaderMaterial\<close> declares \<^verbatim>\<open>OBJECT_MATERIAL material;\<close> without a value: \<open>uninit\<close>
  is whatever that local holds. The three calls through \<^verbatim>\<open>m_pShaderManager\<close> are made
  with no test of the pointer.
\<close>

definition SetShaderMaterial :: "OBJECT_MATERIAL \<Rightarrow> string \<Rightarrow> SceneManager \<Rightarrow> fault + SceneManager" where
  "SetShaderMaterial uninit materialTag s =
     (if length (m_objectMaterials s) > 0 then
        (let (bReturn, material) = FindMaterial s materialTag uninit
         in if bReturn = True then
              (case m_pShaderManager s of
                 None \<Rightarrow> Inl NullPointer
               | Some calls \<Rightarrow>
                   Inr (s\<lparr>m_pShaderManager := Some (calls @
                          [setVec3Value ''material.diffuseColor'' (diffuseColor material),
                           setVec3Value ''material.specularColor'' (specularColor material),
                           setFloatValue ''material.shininess'' (shininess material)])\<rparr>))
            else Inr s)
      else Inr s)"

text \<open>
  \<^verbatim>\<open>DefineObjectMaterials\<close>, with each \<^verbatim>\<open>float\<close> literal as its binary32 pattern
  (\<^verbatim>\<open>0.6f\<close> is \<^verbatim>\<open>0x3F19999A\<close>, \<^verbatim>\<open>85.0f\<close> is \<^verbatim>\<open>0x42AA0000\<close>, and so on).
\<close>

definition glassMaterial :: OBJECT_MATERIAL where
  "glassMaterial = \<lparr>diffuseColor = (0x3F19999A, 0x3F333333, 0x3F4CCCCD),
                    specularColor = (0x3F666666, 0x3F666666, 0x3F800000),
                    shininess = 0x42AA0000, tag = ''glass''\<rparr>"

definition metalMaterial :: OBJECT_MATERIAL where
  "metalMaterial = \<lparr>diffuseColor = (0x3F000000, 0x3F000000, 0x3F000000),
                    specularColor = (0x3F4CCCCD, 0x3F4CCCCD, 0x3F4CCCCD),
                    shininess = 0x42480000, tag = ''metal''\<rparr>"

definition woodMaterial :: OBJECT_MATERIAL where
  "woodMaterial = \<lparr>diffuseColor = (0x3F19999A, 0x3ECCCCCD, 0x3E4CCCCD),
                   specularColor = (0x3E4CCCCD, 0x3DCCCCCD, 0x3DCCCCCD),
                   shininess = 0x41200000, tag = ''wood''\<rparr>"

definition DefineObjectMaterials :: "SceneManager \<Rightarrow> SceneManager" where
  "DefineObjectMaterials s =
     s\<lparr>m_objectMaterials := m_objectMaterials s @ [glassMaterial, metalMaterial, woodMaterial]\<rparr>"

section \<open>Concrete states for the examples\<close>

text \<open>
  A scene manager with a shader manager attached, a texture array of sixteen entries
  (the number of slots \<^verbatim>\<open>BindGLTextures\<close> speaks of), no texture and no material; and one
  whose second and third textures share a tag, as its second and third materials do.
\<close>

definition empty_manager :: SceneManager where
  "empty_manager =
     \<lparr>m_pShaderManager = Some [],
      m_textureIDs = replicate 16 \<lparr>ID = 0, tag = []\<rparr>,
      m_loadedTextures = 0,
      m_objectMaterials = []\<rparr>"

definition twice_manager :: SceneManager where
  "twice_manager =
     \<lparr>m_pShaderManager = Some [],
      m_textureIDs = [\<lparr>ID = 1, tag = ''b''\<rparr>, \<lparr>ID = 2, tag = ''a''\<rparr>,
                      \<lparr>ID = 3, tag = ''a''\<rparr>, \<lparr>ID = 0, tag = []\<rparr>],
      m_loadedTextures = 3,
      m_objectMaterials = [metalMaterial, glassMaterial, woodMaterial\<lparr>tag := ''glass''\<rparr>]\<rparr>"

text \<open>
  A file system with one image of each kind: three channels, four channels, two channels
  (grey with alpha), and nothing else that decodes. A GL context with 48 texture units
  whose driver numbers texture names from 1.
\<close>

definition example_files :: "string \<Rightarrow> stbi_image option" where
  "example_files filename =
     (if filename = ''rgb.jpg'' then
        Some \<lparr>width = 2, height = 1, colorChannels = 3, pixels = [255, 0, 0, 0, 255, 0]\<rparr>
      else if filename = ''rgba.png'' then
        Some \<lparr>width = 1, height = 1, colorChannels = 4, pixels = [0, 0, 255, 128]\<rparr>
      else if filename = ''ga.png'' then
        Some \<lparr>width = 1, height = 1, colorChannels = 2, pixels = [90, 255]\<rparr>
      else None)"

definition example_gl :: GL where
  "example_gl =
     \<lparr>gl_gen = (\<lambda>names. 1 + of_nat (length names)),
      gl_names = [],
      gl_max_units = 48,
      gl_active = 0,
      gl_bound = (\<lambda>unit. 0),
      gl_texture = (\<lambda>name. \<lparr>tex_parameter = (\<lambda>pn. None), tex_image = None, tex_mipmap = False\<rparr>)\<rparr>"

definition example_process :: Process where
  "example_process = \<lparr>mgr = empty_manager, gl = example_gl, console = []\<rparr>"

definition loaded_process :: Process where
  "loaded_process = \<lparr>mgr = twice_manager, gl = example_gl\<lparr>gl_names := [1, 2, 3]\<rparr>, console = []\<rparr>"

text \<open>
  Two load sequences for \<open>example_files\<close>: tags \<^verbatim>\<open>a\<close>, \<^verbatim>\<open>b\<close>, \<^verbatim>\<open>c\<close> in that order, with a
  two-channel file that fails in between; and the tag \<^verbatim>\<open>a\<close> used for two textures.
\<close>

definition abc_loads :: "(string \<times> string) list" where
  "abc_loads = [(''rgb.jpg'', ''a''), (''ga.png'', ''x''), (''rgba.png'', ''b''), (''rgb.jpg'', ''c'')]"

definition aa_loads :: "(string \<times> string) list" where
  "aa_loads = [(''rgb.jpg'', ''a''), (''rgba.png'', ''a'')]"

declare FindTextureID_while.simps [simp del]
declare FindTextureSlot_while.simps [simp del]
declare FindMaterial_while.simps [simp del]
declare BindGLTextures_for.simps [simp del]
declare DestroyGLTextures_for.simps [simp del]

section \<open>The lookup loops\<close>

lemma FindMaterial_while_done:
  "FindMaterial_while s tg (index, True, material) = material"
  by (simp add: FindMaterial_while.simps)

lemma FindTextureID_while_done:
  "FindTextureID_while s tg (textureID, index, True) = Inr textureID"
  by (simp add: FindTextureID_while.simps)

lemma FindTextureSlot_while_done:
  "FindTextureSlot_while s tg (textureSlot, index, True) = Inr textureSlot"
  by (simp add: FindTextureSlot_while.simps)

text \<open>A scan that meets no matching tag runs off the end and leaves the locals as they were.\<close>

lemma FindMaterial_while_miss:
  assumes "\<forall>k. index \<le> k \<and> k < length (m_objectMaterials s)
             \<longrightarrow> OBJECT_MATERIAL.tag (m_objectMaterials s ! k) \<noteq> tg"
  shows "FindMaterial_while s tg (int index, False, material) = material"
  using assms
proof (induction "length (m_objectMaterials s) - index" arbitrary: index)
  case 0
  then have "\<not> index < length (m_objectMaterials s)" by simp
  then show ?case by (subst FindMaterial_while.simps) simp
next
  case (Suc d)
  from Suc.hyps(2) have lt: "index < length (m_objectMaterials s)" by simp
  with Suc.prems have ne: "OBJECT_MATERIAL.tag (m_objectMaterials s ! index) \<noteq> tg" by simp
  have d: "d = length (m_objectMaterials s) - Suc index" using Suc.hyps(2) by simp
  have q: "\<forall>k. Suc index \<le> k \<and> k < length (m_objectMaterials s)
             \<longrightarrow> OBJECT_MATERIAL.tag (m_objectMaterials s ! k) \<noteq> tg"
    using Suc.prems by simp
  have step: "FindMaterial_while s tg (int (Suc index), False, material) = material"
    by (rule Suc.hyps(1)[OF d q])
  have "FindMaterial_while s tg (int index, False, material)
          = FindMaterial_while s tg (int index + 1, False, material)"
    using lt ne by (subst FindMaterial_while.simps) simp
  also have "int index + 1 = int (Suc index)" by simp
  finally show ?case using step by simp
qed

lemma FindTextureID_while_miss:
  assumes "m_loadedTextures s \<le> int (length (m_textureIDs s))"
    and "\<forall>k. index \<le> k \<and> int k < m_loadedTextures s
             \<longrightarrow> TEXTURE_INFO.tag (m_textureIDs s ! k) \<noteq> tg"
  shows "FindTextureID_while s tg (textureID, int index, False) = Inr textureID"
  using assms
proof (induction "nat (m_loadedTextures s) - index" arbitrary: index)
  case 0
  then have "\<not> int index < m_loadedTextures s" by simp
  then show ?case by (subst FindTextureID_while.simps) simp
next
  case (Suc d)
  from Suc.hyps(2) have lt: "int index < m_loadedTextures s" by simp
  with Suc.prems have ne: "TEXTURE_INFO.tag (m_textureIDs s ! index) \<noteq> tg" by simp
  have d: "d = nat (m_loadedTextures s) - Suc index" using Suc.hyps(2) by simp
  have q: "\<forall>k. Suc index \<le> k \<and> int k < m_loadedTextures s
             \<longrightarrow> TEXTURE_INFO.tag (m_textureIDs s ! k) \<noteq> tg"
    using Suc.prems(2) by simp
  have step: "FindTextureID_while s tg (textureID, int (Suc index), False) = Inr textureID"
    by (rule Suc.hyps(1)[OF d Suc.prems(1) q])
  have "FindTextureID_while s tg (textureID, int index, False)
          = FindTextureID_while s tg (textureID, int index + 1, False)"
    using lt ne Suc.prems(1) by (subst FindTextureID_while.simps) simp
  also have "int index + 1 = int (Suc index)" by simp
  finally show ?case using step by simp
qed

lemma FindTextureSlot_while_miss:
  assumes "m_loadedTextures s \<le> int (length (m_textureIDs s))"
    and "\<forall>k. index \<le> k \<and> int k < m_loadedTextures s
             \<longrightarrow> TEXTURE_INFO.tag (m_textureIDs s ! k) \<noteq> tg"
  shows "FindTextureSlot_while s tg (textureSlot, int index, False) = Inr textureSlot"
  using assms
proof (induction "nat (m_loadedTextures s) - index" arbitrary: index)
  case 0
  then have "\<not> int index < m_loadedTextures s" by simp
  then show ?case by (subst FindTextureSlot_while.simps) simp
next
  case (Suc d)
  from Suc.hyps(2) have lt: "int index < m_loadedTextures s" by simp
  with Suc.prems have ne: "TEXTURE_INFO.tag (m_textureIDs s ! index) \<noteq> tg" by simp
  have d: "d = nat (m_loadedTextures s) - Suc index" using Suc.hyps(2) by simp
  have q: "\<forall>k. Suc index \<le> k \<and> int k < m_loadedTextures s
             \<longrightarrow> TEXTURE_INFO.tag (m_textureIDs s ! k) \<noteq> tg"
    using Suc.prems(2) by simp
  have step: "FindTextureSlot_while s tg (textureSlot, int (Suc index), False) = Inr textureSlot"
    by (rule Suc.hyps(1)[OF d Suc.prems(1) q])
  have "FindTextureSlot_while s tg (textureSlot, int index, False)
          = FindTextureSlot_while s tg (textureSlot, int index + 1, False)"
    using lt ne Suc.prems(1) by (subst FindTextureSlot_while.simps) simp
  also have "int index + 1 = int (Suc index)" by simp
  finally show ?case using step by simp
qed

text \<open>A scan stops at the first index \<open>j\<close> whose tag matches and takes that entry's data.\<close>

lemma FindMaterial_while_first:
  assumes "j < length (m_objectMaterials s)"
    and "OBJECT_MATERIAL.tag (m_objectMaterials s ! j) = tg"
    and "\<forall>k. index \<le> k \<and> k < j \<longrightarrow> OBJECT_MATERIAL.tag (m_objectMaterials s ! k) \<noteq> tg"
    and "index \<le> j"
  shows "FindMaterial_while s tg (int index, False, material) =
           material\<lparr>diffuseColor := diffuseColor (m_objectMaterials s ! j),
                    specularColor := specularColor (m_objectMaterials s ! j),
                    shininess := shininess (m_objectMaterials s ! j)\<rparr>"
  using assms
proof (induction "j - index" arbitrary: index)
  case 0
  then have eq: "index = j" by simp
  show ?case
    unfolding eq using "0.prems"(1,2)
    by (subst FindMaterial_while.simps) (simp add: FindMaterial_while_done)
next
  case (Suc d)
  from Suc.hyps(2) have lt: "index < j" by simp
  with Suc.prems have ne: "OBJECT_MATERIAL.tag (m_objectMaterials s ! index) \<noteq> tg" by simp
  have d: "d = j - Suc index" using Suc.hyps(2) by simp
  have q: "\<forall>k. Suc index \<le> k \<and> k < j \<longrightarrow> OBJECT_MATERIAL.tag (m_objectMaterials s ! k) \<noteq> tg"
    using Suc.prems(3) by simp
  have le: "Suc index \<le> j" using lt by simp
  have step: "FindMaterial_while s tg (int (Suc index), False, material) =
           material\<lparr>diffuseColor := diffuseColor (m_objectMaterials s ! j),
                    specularColor := specularColor (m_objectMaterials s ! j),
                    shininess := shininess (m_objectMaterials s ! j)\<rparr>"
    by (rule Suc.hyps(1)[OF d Suc.prems(1) Suc.prems(2) q le])
  have "FindMaterial_while s tg (int index, False, material)
          = FindMaterial_while s tg (int index + 1, False, material)"
    using lt ne Suc.prems(1) by (subst FindMaterial_while.simps) simp
  also have "int index + 1 = int (Suc index)" by simp
  finally show ?case using step by simp
qed

lemma FindTextureID_while_first:
  assumes "j < length (m_textureIDs s)"
    and "int j < m_loadedTextures s"
    and "TEXTURE_INFO.tag (m_textureIDs s ! j) = tg"
    and "\<forall>k. index \<le> k \<and> k < j \<longrightarrow> TEXTURE_INFO.tag (m_textureIDs s ! k) \<noteq> tg"
    and "index \<le> j"
  shows "FindTextureID_while s tg (textureID, int index, False) = Inr (sint (ID (m_textureIDs s ! j)))"
  using assms
proof (induction "j - index" arbitrary: index)
  case 0
  then have eq: "index = j" by simp
  show ?case
    unfolding eq using "0.prems"(1,2,3)
    by (subst FindTextureID_while.simps) (simp add: FindTextureID_while_done)
next
  case (Suc d)
  from Suc.hyps(2) have lt: "index < j" by simp
  with Suc.prems have ne: "TEXTURE_INFO.tag (m_textureIDs s ! index) \<noteq> tg" by simp
  have d: "d = j - Suc index" using Suc.hyps(2) by simp
  have q: "\<forall>k. Suc index \<le> k \<and> k < j \<longrightarrow> TEXTURE_INFO.tag (m_textureIDs s ! k) \<noteq> tg"
    using Suc.prems(4) by simp
  have le: "Suc index \<le> j" using lt by simp
  have step: "FindTextureID_while s tg (textureID, int (Suc index), False)
                = Inr (sint (ID (m_textureIDs s ! j)))"
    by (rule Suc.hyps(1)[OF d Suc.prems(1) Suc.prems(2) Suc.prems(3) q le])
  have "FindTextureID_while s tg (textureID, int index, False)
          = FindTextureID_while s tg (textureID, int index + 1, False)"
    using lt ne Suc.prems(1,2) by (subst FindTextureID_while.simps) simp
  also have "int index + 1 = int (Suc index)" by simp
  finally show ?case using step by simp
qed

lemma FindTextureSlot_while_first:
  assumes "j < length (m_textureIDs s)"
    and "int j < m_loadedTextures s"
    and "TEXTURE_INFO.tag (m_textureIDs s ! j) = tg"
    and "\<forall>k. index \<le> k \<and> k < j \<longrightarrow> TEXTURE_INFO.tag (m_textureIDs s ! k) \<noteq> tg"
    and "index \<le> j"
  shows "FindTextureSlot_while s tg (textureSlot, int index, False) = Inr (int j)"
  using assms
proof (induction "j - index" arbitrary: index)
  case 0
  then have eq: "index = j" by simp
  show ?case
    unfolding eq using "0.prems"(1,2,3)
    by (subst FindTextureSlot_while.simps) (simp add: FindTextureSlot_while_done)
next
  case (Suc d)
  from Suc.hyps(2) have lt: "index < j" by simp
  with Suc.prems have ne: "TEXTURE_INFO.tag (m_textureIDs s ! index) \<noteq> tg" by simp
  have d: "d = j - Suc index" using Suc.hyps(2) by simp
  have q: "\<forall>k. Suc index \<le> k \<and> k < j \<longrightarrow> TEXTURE_INFO.tag (m_textureIDs s ! k) \<noteq> tg"
    using Suc.prems(4) by simp
  have le: "Suc index \<le> j" using lt by simp
  have step: "FindTextureSlot_while s tg (textureSlot, int (Suc index), False) = Inr (int j)"
    by (rule Suc.hyps(1)[OF d Suc.prems(1) Suc.prems(2) Suc.prems(3) q le])
  have "FindTextureSlot_while s tg (textureSlot, int index, False)
          = FindTextureSlot_while s tg (textureSlot, int index + 1, False)"
    using lt ne Suc.prems(1,2) by (subst FindTextureSlot_while.simps) simp
  also have "int index + 1 = int (Suc index)" by simp
  finally show ?case using step by simp
qed

lemma FindTextureID_first:
  assumes "j < length (registered s)"
    and "TEXTURE_INFO.tag (registered s ! j) = tg"
    and "\<forall>k<j. TEXTURE_INFO.tag (registered s ! k) \<noteq> tg"
  shows "FindTextureID s tg = Inr (sint (ID (registered s ! j)))"
proof -
  from assms(1) have r: "j < length (m_textureIDs s)" "int j < m_loadedTextures s"
    by (auto simp: registered_def)
  have n: "\<And>k. k \<le> j \<Longrightarrow> registered s ! k = m_textureIDs s ! k"
    using r by (simp add: registered_def)
  have "FindTextureID_while s tg (- 1, int 0, False) = Inr (sint (ID (m_textureIDs s ! j)))"
    using assms(2,3) n by (intro FindTextureID_while_first r) auto
  then show ?thesis using n[of j] by (simp add: FindTextureID_def)
qed

lemma FindTextureSlot_first:
  assumes "j < length (registered s)"
    and "TEXTURE_INFO.tag (registered s ! j) = tg"
    and "\<forall>k<j. TEXTURE_INFO.tag (registered s ! k) \<noteq> tg"
  shows "FindTextureSlot s tg = Inr (int j)"
proof -
  from assms(1) have r: "j < length (m_textureIDs s)" "int j < m_loadedTextures s"
    by (auto simp: registered_def)
  have n: "\<And>k. k \<le> j \<Longrightarrow> registered s ! k = m_textureIDs s ! k"
    using r by (simp add: registered_def)
  have "FindTextureSlot_while s tg (- 1, int 0, False) = Inr (int j)"
    using assms(2,3) n by (intro FindTextureSlot_while_first r) auto
  then show ?thesis by (simp add: FindTextureSlot_def)
qed

lemma FindMaterial_first:
  assumes "j < length (m_objectMaterials s)"
    and "OBJECT_MATERIAL.tag (m_objectMaterials s ! j) = tg"
    and "\<forall>k<j. OBJECT_MATERIAL.tag (m_objectMaterials s ! k) \<noteq> tg"
  shows "FindMaterial s tg material =
           (True, material\<lparr>diffuseColor := diffuseColor (m_objectMaterials s ! j),
                           specularColor := specularColor (m_objectMaterials s ! j),
                           shininess := shininess (m_objectMaterials s ! j)\<rparr>)"
proof -
  have "FindMaterial_while s tg (int 0, False, material) =
           material\<lparr>diffuseColor := diffuseColor (m_objectMaterials s ! j),
                    specularColor := specularColor (m_objectMaterials s ! j),
                    shininess := shininess (m_objectMaterials s ! j)\<rparr>"
    using assms by (intro FindMaterial_while_first) auto
  then show ?thesis using assms(1) by (auto simp: FindMaterial_def)
qed

lemma FindMaterial_no_match:
  assumes "m_objectMaterials s \<noteq> []"
    and "tg \<notin> set (map OBJECT_MATERIAL.tag (m_objectMaterials s))"
  shows "FindMaterial s tg material = (True, material)"
proof -
  have "FindMaterial_while s tg (int 0, False, material) = material"
    using assms(2) by (intro FindMaterial_while_miss) auto
  then show ?thesis using assms(1) by (simp add: FindMaterial_def)
qed

lemma unregistered_no_index:
  assumes "m_loadedTextures s \<le> int (length (m_textureIDs s))"
    and "tg \<notin> set (map TEXTURE_INFO.tag (registered s))"
  shows "\<forall>k. 0 \<le> k \<and> int k < m_loadedTextures s \<longrightarrow> TEXTURE_INFO.tag (m_textureIDs s ! k) \<noteq> tg"
proof (intro allI impI)
  fix k assume k: "0 \<le> k \<and> int k < m_loadedTextures s"
  with assms(1) have "k < length (registered s)" by (simp add: registered_def)
  moreover from k have "registered s ! k = m_textureIDs s ! k" by (simp add: registered_def)
  ultimately have "m_textureIDs s ! k \<in> set (registered s)" by (metis nth_mem)
  with assms(2) show "TEXTURE_INFO.tag (m_textureIDs s ! k) \<noteq> tg" by auto
qed

lemma twice_manager_registered:
  "registered twice_manager =
     [\<lparr>ID = 1, tag = ''b''\<rparr>, \<lparr>ID = 2, tag = ''a''\<rparr>, \<lparr>ID = 3, tag = ''a''\<rparr>]"
  by (simp add: registered_def twice_manager_def)

section \<open>Claims about the lookups\<close>

text \<open>
  C1. For every tag: when the material registry is not empty and no entry carries the tag,
  \<^verbatim>\<open>FindMaterial\<close> returns \<^verbatim>\<open>true\<close> and the caller's material is what it was before the call.
\<close>

theorem FindMaterial_no_match_returns_true:
  assumes "m_objectMaterials s \<noteq> []"
    and "tg \<notin> set (map OBJECT_MATERIAL.tag (m_objectMaterials s))"
  shows "FindMaterial s tg material = (True, material)"
  using assms by (rule FindMaterial_no_match)

theorem FindMaterial_no_match_returns_true_witness:
  "m_objectMaterials (DefineObjectMaterials empty_manager) \<noteq> []
   \<and> ''plastic'' \<notin> set (map OBJECT_MATERIAL.tag (m_objectMaterials (DefineObjectMaterials empty_manager)))
   \<and> FindMaterial (DefineObjectMaterials empty_manager) ''plastic'' (woodMaterial\<lparr>tag := ''mine''\<rparr>)
       = (True, woodMaterial\<lparr>tag := ''mine''\<rparr>)"
proof -
  have a: "m_objectMaterials (DefineObjectMaterials empty_manager) \<noteq> []"
    by (simp add: DefineObjectMaterials_def)
  have b: "''plastic'' \<notin> set (map OBJECT_MATERIAL.tag
             (m_objectMaterials (DefineObjectMaterials empty_manager)))"
    by (simp add: DefineObjectMaterials_def empty_manager_def
                  glassMaterial_def metalMaterial_def woodMaterial_def)
  show ?thesis
    using a b FindMaterial_no_match_returns_true [OF a b] by simp
qed

text \<open>
  C8. For every tag: on an empty material registry \<^verbatim>\<open>FindMaterial\<close> returns \<^verbatim>\<open>false\<close> at once
  and the caller's material is what it was before the call.
\<close>

theorem FindMaterial_empty_returns_false:
  "FindMaterial (s\<lparr>m_objectMaterials := []\<rparr>) tg material = (False, material)"
  by (simp add: FindMaterial_def)

text \<open>
  C5. For every tag that no registered texture carries, \<^verbatim>\<open>FindTextureID\<close> and
  \<^verbatim>\<open>FindTextureSlot\<close> both return -1, and neither faults; the count is within the array, as
  it is in every state the loads produce.
\<close>

theorem unregistered_tag_returns_minus_one:
  assumes "m_loadedTextures s \<le> int (length (m_textureIDs s))"
    and "tg \<notin> set (map TEXTURE_INFO.tag (registered s))"
  shows "FindTextureID s tg = Inr (- 1) \<and> FindTextureSlot s tg = Inr (- 1)"
proof -
  have q: "\<forall>k. 0 \<le> k \<and> int k < m_loadedTextures s
             \<longrightarrow> TEXTURE_INFO.tag (m_textureIDs s ! k) \<noteq> tg"
    by (rule unregistered_no_index [OF assms])
  have "FindTextureID_while s tg (- 1, int 0, False) = Inr (- 1)"
    by (rule FindTextureID_while_miss [OF assms(1) q])
  moreover have "FindTextureSlot_while s tg (- 1, int 0, False) = Inr (- 1)"
    by (rule FindTextureSlot_while_miss [OF assms(1) q])
  ultimately show ?thesis by (simp add: FindTextureID_def FindTextureSlot_def)
qed

theorem unregistered_tag_returns_minus_one_witness:
  "m_loadedTextures twice_manager \<le> int (length (m_textureIDs twice_manager))
   \<and> ''c'' \<notin> set (map TEXTURE_INFO.tag (registered twice_manager))
   \<and> FindTextureID twice_manager ''c'' = Inr (- 1)
   \<and> FindTextureSlot twice_manager ''c'' = Inr (- 1)"
proof -
  have a: "m_loadedTextures twice_manager \<le> int (length (m_textureIDs twice_manager))"
    by (simp add: twice_manager_def)
  have b: "''c'' \<notin> set (map TEXTURE_INFO.tag (registered twice_manager))"
    by (simp add: twice_manager_registered)
  show ?thesis
    using a b unregistered_tag_returns_minus_one [OF a b] by simp
qed

text \<open>
  C9. The lookups detect no duplicate. Whenever \<open>i\<close> is the first registered texture with the
  tag, \<^verbatim>\<open>FindTextureID\<close> returns that entry's ID (as the \<^verbatim>\<open>int\<close> it converts to) and
  \<^verbatim>\<open>FindTextureSlot\<close> returns \<open>i\<close>; whenever \<open>j\<close> is the first material with the tag,
  \<^verbatim>\<open>FindMaterial\<close> returns \<^verbatim>\<open>true\<close> with that entry's colours and shininess. Entries after the
  first match, with the same tag or another, have no part in the result. The two parts
  stand each on its own condition: the texture lookups ask nothing of the materials, and
  the material lookup nothing of the textures.
\<close>

theorem first_match_wins:
  "(i < length (registered s)
      \<and> TEXTURE_INFO.tag (registered s ! i) = tg
      \<and> (\<forall>k<i. TEXTURE_INFO.tag (registered s ! k) \<noteq> tg)
    \<longrightarrow> FindTextureID s tg = Inr (sint (ID (registered s ! i)))
      \<and> FindTextureSlot s tg = Inr (int i))
   \<and> (j < length (m_objectMaterials s)
      \<and> OBJECT_MATERIAL.tag (m_objectMaterials s ! j) = mtg
      \<and> (\<forall>k<j. OBJECT_MATERIAL.tag (m_objectMaterials s ! k) \<noteq> mtg)
    \<longrightarrow> FindMaterial s mtg material =
           (True, material\<lparr>diffuseColor := diffuseColor (m_objectMaterials s ! j),
                           specularColor := specularColor (m_objectMaterials s ! j),
                           shininess := shininess (m_objectMaterials s ! j)\<rparr>))"
proof (intro conjI impI)
  assume t: "i < length (registered s)
      \<and> TEXTURE_INFO.tag (registered s ! i) = tg
      \<and> (\<forall>k<i. TEXTURE_INFO.tag (registered s ! k) \<noteq> tg)"
  then have t1: "i < length (registered s)"
    and t2: "TEXTURE_INFO.tag (registered s ! i) = tg"
    and t3: "\<forall>k<i. TEXTURE_INFO.tag (registered s ! k) \<noteq> tg"
    by simp_all
  show "FindTextureID s tg = Inr (sint (ID (registered s ! i)))"
    by (rule FindTextureID_first [OF t1 t2 t3])
  show "FindTextureSlot s tg = Inr (int i)"
    by (rule FindTextureSlot_first [OF t1 t2 t3])
next
  assume m: "j < length (m_objectMaterials s)
      \<and> OBJECT_MATERIAL.tag (m_objectMaterials s ! j) = mtg
      \<and> (\<forall>k<j. OBJECT_MATERIAL.tag (m_objectMaterials s ! k) \<noteq> mtg)"
  then have m1: "j < length (m_objectMaterials s)"
    and m2: "OBJECT_MATERIAL.tag (m_objectMaterials s ! j) = mtg"
    and m3: "\<forall>k<j. OBJECT_MATERIAL.tag (m_objectMaterials s ! k) \<noteq> mtg"
    by simp_all
  show "FindMaterial s mtg material =
           (True, material\<lparr>diffuseColor := diffuseColor (m_objectMaterials s ! j),
                           specularColor := specularColor (m_objectMaterials s ! j),
                           shininess := shininess (m_objectMaterials s ! j)\<rparr>)"
    by (rule FindMaterial_first [OF m1 m2 m3])
qed

text \<open>
  In \<open>twice_manager\<close> the tag \<^verbatim>\<open>a\<close> is on the textures at indices 1 and 2 (IDs 2 and 3) and
  the tag \<^verbatim>\<open>glass\<close> on the materials at indices 1 and 2: index 1 answers every lookup.
\<close>

theorem first_match_wins_witness:
  "TEXTURE_INFO.tag (registered twice_manager ! 0) \<noteq> ''a''
   \<and> TEXTURE_INFO.tag (registered twice_manager ! 1) = ''a''
   \<and> TEXTURE_INFO.tag (registered twice_manager ! 2) = ''a''
   \<and> OBJECT_MATERIAL.tag (m_objectMaterials twice_manager ! 0) \<noteq> ''glass''
   \<and> OBJECT_MATERIAL.tag (m_objectMaterials twice_manager ! 1) = ''glass''
   \<and> OBJECT_MATERIAL.tag (m_objectMaterials twice_manager ! 2) = ''glass''
   \<and> FindTextureID twice_manager ''a'' = Inr 2
   \<and> FindTextureSlot twice_manager ''a'' = Inr 1
   \<and> FindMaterial twice_manager ''glass'' woodMaterial = (True, glassMaterial\<lparr>tag := ''wood''\<rparr>)"
proof -
  have a: "(1::nat) < length (registered twice_manager)"
    and b: "TEXTURE_INFO.tag (registered twice_manager ! 1) = ''a''"
    and b': "TEXTURE_INFO.tag (registered twice_manager ! 2) = ''a''"
    and c0: "TEXTURE_INFO.tag (registered twice_manager ! 0) \<noteq> ''a''"
    by (simp_all add: twice_manager_registered)
  have c: "\<forall>k<(1::nat). TEXTURE_INFO.tag (registered twice_manager ! k) \<noteq> ''a''"
    using c0 by simp
  have d: "(1::nat) < length (m_objectMaterials twice_manager)"
    and e: "OBJECT_MATERIAL.tag (m_objectMaterials twice_manager ! 1) = ''glass''"
    and e': "OBJECT_MATERIAL.tag (m_objectMaterials twice_manager ! 2) = ''glass''"
    and f0: "OBJECT_MATERIAL.tag (m_objectMaterials twice_manager ! 0) \<noteq> ''glass''"
    by (simp_all add: twice_manager_def glassMaterial_def metalMaterial_def)
  have f: "\<forall>k<(1::nat). OBJECT_MATERIAL.tag (m_objectMaterials twice_manager ! k) \<noteq> ''glass''"
    using f0 by simp
  have g: "woodMaterial
             \<lparr>diffuseColor := diffuseColor (m_objectMaterials twice_manager ! 1),
              specularColor := specularColor (m_objectMaterials twice_manager ! 1),
              shininess := shininess (m_objectMaterials twice_manager ! 1)\<rparr>
           = glassMaterial\<lparr>tag := ''wood''\<rparr>"
    by (simp add: twice_manager_def glassMaterial_def woodMaterial_def)
  note w = first_match_wins [where i = 1 and s = twice_manager and tg = "''a''"
                               and j = 1 and mtg = "''glass''" and material = woodMaterial]
  have tex: "FindTextureID twice_manager ''a'' = Inr (sint (ID (registered twice_manager ! 1)))"
            "FindTextureSlot twice_manager ''a'' = Inr (int 1)"
    using w a b c by simp_all
  have mat: "FindMaterial twice_manager ''glass'' woodMaterial = (True, glassMaterial\<lparr>tag := ''wood''\<rparr>)"
    using w d e f g by simp
  show ?thesis
    using b b' c0 e e' f0 tex mat
    by (simp add: twice_manager_registered)
qed

section \<open>Loading a texture\<close>

lemma gl_max_units_glGenTextures: "gl_max_units (snd (glGenTextures g)) = gl_max_units g"
  by (simp add: glGenTextures_def)

lemma gl_max_units_glBindTexture: "gl_max_units (glBindTexture name g) = gl_max_units g"
  by (simp add: glBindTexture_def)

lemma gl_max_units_glTexParameteri: "gl_max_units (glTexParameteri pn v g) = gl_max_units g"
  by (simp add: glTexParameteri_def)

lemma gl_max_units_glTexImage2D: "gl_max_units (glTexImage2D f w h fmt d g) = gl_max_units g"
  by (simp add: glTexImage2D_def)

lemma gl_max_units_glGenerateMipmap: "gl_max_units (glGenerateMipmap g) = gl_max_units g"
  by (simp add: glGenerateMipmap_def)

lemmas gl_max_units_simps =
  gl_max_units_glGenTextures gl_max_units_glBindTexture gl_max_units_glTexParameteri
  gl_max_units_glTexImage2D gl_max_units_glGenerateMipmap

lemma CreateGLTexture_register_room:
  assumes "0 \<le> m_loadedTextures (mgr p)"
    and "m_loadedTextures (mgr p) < int (length (m_textureIDs (mgr p)))"
  shows "\<exists>p'. CreateGLTexture_register textureID tg p = Inr (True, p')
           \<and> mgr p' = (mgr p)\<lparr>m_textureIDs :=
                          (m_textureIDs (mgr p))[nat (m_loadedTextures (mgr p)) := \<lparr>ID = textureID, tag = tg\<rparr>],
                        m_loadedTextures := m_loadedTextures (mgr p) + 1\<rparr>
           \<and> gl_max_units (gl p') = gl_max_units (gl p)"
  using assms
  by (simp add: CreateGLTexture_register_def Let_def gl_max_units_simps)

lemma CreateGLTexture_register_no_room:
  assumes "\<not> (0 \<le> m_loadedTextures (mgr p)
              \<and> m_loadedTextures (mgr p) < int (length (m_textureIDs (mgr p))))"
  shows "CreateGLTexture_register textureID tg p = Inl OutOfBounds"
  using assms by (auto simp add: CreateGLTexture_register_def Let_def)

lemma CreateGLTexture_not_loadable:
  assumes "\<not> loadable stbi_load filename"
  shows "\<exists>p'. CreateGLTexture stbi_load filename tg p = Inr (False, p') \<and> mgr p' = mgr p
           \<and> gl_max_units (gl p') = gl_max_units (gl p)"
proof (cases "stbi_load filename")
  case None
  then show ?thesis by (simp add: CreateGLTexture_def)
next
  case (Some img)
  with assms have ch: "colorChannels img \<noteq> 3" "colorChannels img \<noteq> 4"
    by (simp_all add: loadable_def)
  show ?thesis
    using ch by (simp add: CreateGLTexture_def Some Let_def split_beta gl_max_units_simps)
qed


lemma CreateGLTexture_loadable_room:
  assumes "loadable stbi_load filename"
    and "0 \<le> m_loadedTextures (mgr p)"
    and "m_loadedTextures (mgr p) < int (length (m_textureIDs (mgr p)))"
  shows "\<exists>p'. CreateGLTexture stbi_load filename tg p = Inr (True, p')
           \<and> mgr p' = (mgr p)\<lparr>m_textureIDs :=
                          (m_textureIDs (mgr p))[nat (m_loadedTextures (mgr p)) :=
                             \<lparr>ID = fst (glGenTextures (gl p)), tag = tg\<rparr>],
                        m_loadedTextures := m_loadedTextures (mgr p) + 1\<rparr>
           \<and> gl_max_units (gl p') = gl_max_units (gl p)"
proof -
  from assms(1) obtain img where img: "stbi_load filename = Some img"
    and ch: "colorChannels img = 3 \<or> colorChannels img = 4"
    by (auto simp: loadable_def split: option.splits)
  define out where "out = console p @
    [Successfully_loaded_image filename (width img) (height img) (colorChannels img)]"
  define g6 where "g6 = glTexParameteri GL_TEXTURE_MAG_FILTER GL_LINEAR
      (glTexParameteri GL_TEXTURE_MIN_FILTER GL_LINEAR
        (glTexParameteri GL_TEXTURE_WRAP_T GL_REPEAT
          (glTexParameteri GL_TEXTURE_WRAP_S GL_REPEAT
            (glBindTexture (fst (glGenTextures (gl p))) (snd (glGenTextures (gl p)))))))"
  have mu: "gl_max_units g6 = gl_max_units (gl p)"
    by (simp add: g6_def gl_max_units_simps)
  define q where "q = (if colorChannels img = 3
      then p\<lparr>gl := glTexImage2D GL_RGB8 (width img) (height img) GL_RGB (pixels img) g6,
             console := out\<rparr>
      else p\<lparr>gl := glTexImage2D GL_RGBA8 (width img) (height img) GL_RGBA (pixels img) g6,
             console := out\<rparr>)"
  have qm: "mgr q = mgr p" and qg: "gl_max_units (gl q) = gl_max_units (gl p)"
    using mu by (simp_all add: q_def gl_max_units_simps)
  have eq: "CreateGLTexture stbi_load filename tg p
          = CreateGLTexture_register (fst (glGenTextures (gl p))) tg q"
    using ch by (auto simp add: CreateGLTexture_def img Let_def split_beta q_def g6_def out_def)
  show ?thesis
    unfolding eq
    using CreateGLTexture_register_room [of q "fst (glGenTextures (gl p))" tg] assms(2,3)
    by (simp add: qm qg)
qed

lemma CreateGLTexture_loadable_no_room:
  assumes "loadable stbi_load filename"
    and "\<not> (0 \<le> m_loadedTextures (mgr p)
              \<and> m_loadedTextures (mgr p) < int (length (m_textureIDs (mgr p))))"
  shows "CreateGLTexture stbi_load filename tg p = Inl OutOfBounds"
proof -
  from assms(1) obtain img where img: "stbi_load filename = Some img"
    and ch: "colorChannels img = 3 \<or> colorChannels img = 4"
    by (auto simp: loadable_def split: option.splits)
  have "\<And>q. mgr q = mgr p \<Longrightarrow> CreateGLTexture_register (fst (glGenTextures (gl p))) tg q = Inl OutOfBounds"
    using assms(2) by (intro CreateGLTexture_register_no_room) simp
  then show ?thesis
    using ch by (auto simp add: CreateGLTexture_def img Let_def split_beta)
qed

lemma registered_after_register:
  assumes "0 \<le> m_loadedTextures s" and "m_loadedTextures s < int (length (m_textureIDs s))"
  shows "registered (s\<lparr>m_textureIDs := (m_textureIDs s)[nat (m_loadedTextures s) := e],
                       m_loadedTextures := m_loadedTextures s + 1\<rparr>)
         = registered s @ [e]"
proof -
  have n: "nat (m_loadedTextures s) < length (m_textureIDs s)" using assms by simp
  have "nat (m_loadedTextures s + 1) = Suc (nat (m_loadedTextures s))" using assms(1) by simp
  then show ?thesis
    using n by (simp add: registered_def take_Suc_conv_app_nth)
qed

lemma loadable_iff:
  "loadable stbi_load filename \<longleftrightarrow>
     (\<exists>img. stbi_load filename = Some img \<and> (colorChannels img = 3 \<or> colorChannels img = 4))"
  by (auto simp: loadable_def split: option.splits)

lemma example_process_room:
  "0 \<le> m_loadedTextures (mgr example_process)"
  "m_loadedTextures (mgr example_process) < int (length (m_textureIDs (mgr example_process)))"
  by (simp_all add: example_process_def empty_manager_def)

text \<open>
  A call that returns keeps the count within the array, so every state reached from an
  empty registry by loads has it there.
\<close>

lemma CreateGLTexture_keeps_count_in_array:
  assumes "m_loadedTextures (mgr p) \<le> int (length (m_textureIDs (mgr p)))"
    and "CreateGLTexture stbi_load filename tg p = Inr (bReturn, p')"
  shows "m_loadedTextures (mgr p') \<le> int (length (m_textureIDs (mgr p')))"
proof (cases "loadable stbi_load filename")
  case False
  from CreateGLTexture_not_loadable [OF False, of tg p] assms show ?thesis by auto
next
  case True
  show ?thesis
  proof (cases "0 \<le> m_loadedTextures (mgr p)
                \<and> m_loadedTextures (mgr p) < int (length (m_textureIDs (mgr p)))")
    case room: True
    from CreateGLTexture_loadable_room [OF True, of p tg] room assms show ?thesis by auto
  next
    case False
    from CreateGLTexture_loadable_no_room [OF True False, of tg] assms show ?thesis by simp
  qed
qed

section \<open>Claims about loading a texture\<close>

text \<open>
  C6. For every file and tag, with room left in the texture array: \<^verbatim>\<open>CreateGLTexture\<close>
  returns, and it returns \<^verbatim>\<open>true\<close> exactly when the file decodes to an image of three or of
  four channels. When it returns \<^verbatim>\<open>true\<close> the texture is registered: the count has grown by
  one and the list of registered textures ends with the generated name and the tag. When
  it returns \<^verbatim>\<open>false\<close>, as it does for a two-channel image, the scene manager is as before,
  so later loads are not affected.
\<close>

theorem CreateGLTexture_true_iff_three_or_four_channels:
  assumes "0 \<le> m_loadedTextures (mgr p)"
    and "m_loadedTextures (mgr p) < int (length (m_textureIDs (mgr p)))"
  shows "\<exists>bReturn p'. CreateGLTexture stbi_load filename tg p = Inr (bReturn, p')
     \<and> (bReturn \<longleftrightarrow>
          (\<exists>img. stbi_load filename = Some img \<and> (colorChannels img = 3 \<or> colorChannels img = 4)))
     \<and> (bReturn \<longrightarrow> m_loadedTextures (mgr p') = m_loadedTextures (mgr p) + 1
            \<and> registered (mgr p') = registered (mgr p) @ [\<lparr>ID = fst (glGenTextures (gl p)), tag = tg\<rparr>])
     \<and> (\<not> bReturn \<longrightarrow> mgr p' = mgr p)"
proof (cases "loadable stbi_load filename")
  case True
  from CreateGLTexture_loadable_room [OF True assms, of tg]
  obtain p' where r: "CreateGLTexture stbi_load filename tg p = Inr (True, p')"
    and m: "mgr p' = (mgr p)\<lparr>m_textureIDs :=
                          (m_textureIDs (mgr p))[nat (m_loadedTextures (mgr p)) :=
                             \<lparr>ID = fst (glGenTextures (gl p)), tag = tg\<rparr>],
                        m_loadedTextures := m_loadedTextures (mgr p) + 1\<rparr>"
    by blast
  have "registered (mgr p') = registered (mgr p) @ [\<lparr>ID = fst (glGenTextures (gl p)), tag = tg\<rparr>]"
    unfolding m by (rule registered_after_register [OF assms])
  moreover have "m_loadedTextures (mgr p') = m_loadedTextures (mgr p) + 1"
    unfolding m by simp
  ultimately show ?thesis
    using r True by (intro exI[of _ True] exI[of _ p']) (simp add: loadable_iff)
next
  case False
  from CreateGLTexture_not_loadable [OF False, of tg p]
  obtain p' where "CreateGLTexture stbi_load filename tg p = Inr (False, p')" "mgr p' = mgr p"
    by blast
  then show ?thesis
    using False by (intro exI[of _ False] exI[of _ p']) (simp add: loadable_iff)
qed

theorem CreateGLTexture_true_iff_three_or_four_channels_witness:
  "0 \<le> m_loadedTextures (mgr example_process)
   \<and> m_loadedTextures (mgr example_process) < int (length (m_textureIDs (mgr example_process)))
   \<and> (\<exists>p'. CreateGLTexture example_files ''rgb.jpg'' ''floor'' example_process = Inr (True, p')
          \<and> registered (mgr p') = [\<lparr>ID = 1, tag = ''floor''\<rparr>])
   \<and> (\<exists>p'. CreateGLTexture example_files ''rgba.png'' ''label'' example_process = Inr (True, p')
          \<and> registered (mgr p') = [\<lparr>ID = 1, tag = ''label''\<rparr>])
   \<and> (\<exists>p'. CreateGLTexture example_files ''ga.png'' ''grey'' example_process = Inr (False, p')
          \<and> mgr p' = empty_manager)
   \<and> (\<exists>p'. CreateGLTexture example_files ''none.png'' ''none'' example_process = Inr (False, p')
          \<and> mgr p' = empty_manager)"
proof -
  note t = CreateGLTexture_true_iff_three_or_four_channels [OF example_process_room, of example_files]
  have reg: "registered (mgr example_process) = []"
    by (simp add: registered_def example_process_def empty_manager_def)
  have gen: "fst (glGenTextures (gl example_process)) = 1"
    by (simp add: glGenTextures_def example_process_def example_gl_def)
  have m: "mgr example_process = empty_manager" by (simp add: example_process_def)
  have f1: "\<exists>img. example_files ''rgb.jpg'' = Some img \<and> (colorChannels img = 3 \<or> colorChannels img = 4)"
    by (simp add: example_files_def)
  have f2: "\<exists>img. example_files ''rgba.png'' = Some img \<and> (colorChannels img = 3 \<or> colorChannels img = 4)"
    by (simp add: example_files_def)
  have f3: "\<not> (\<exists>img. example_files ''ga.png'' = Some img \<and> (colorChannels img = 3 \<or> colorChannels img = 4))"
    by (simp add: example_files_def)
  have f4: "\<not> (\<exists>img. example_files ''none.png'' = Some img \<and> (colorChannels img = 3 \<or> colorChannels img = 4))"
    by (simp add: example_files_def)
  have a: "\<exists>p'. CreateGLTexture example_files ''rgb.jpg'' ''floor'' example_process = Inr (True, p')
          \<and> registered (mgr p') = [\<lparr>ID = 1, tag = ''floor''\<rparr>]"
    using t [of "''rgb.jpg''" "''floor''"] f1 reg gen by auto
  have b: "\<exists>p'. CreateGLTexture example_files ''rgba.png'' ''label'' example_process = Inr (True, p')
          \<and> registered (mgr p') = [\<lparr>ID = 1, tag = ''label''\<rparr>]"
    using t [of "''rgba.png''" "''label''"] f2 reg gen by auto
  have c: "\<exists>p'. CreateGLTexture example_files ''ga.png'' ''grey'' example_process = Inr (False, p')
          \<and> mgr p' = empty_manager"
    using t [of "''ga.png''" "''grey''"] f3 m by auto
  have d: "\<exists>p'. CreateGLTexture example_files ''none.png'' ''none'' example_process = Inr (False, p')
          \<and> mgr p' = empty_manager"
    using t [of "''none.png''" "''none''"] f4 m by auto
  show ?thesis using example_process_room a b c d by blast
qed

text \<open>
  C10. For every file and tag: when \<^verbatim>\<open>CreateGLTexture\<close> returns \<^verbatim>\<open>false\<close>, the count and
  the array of the texture registry are what they were, and \<^verbatim>\<open>FindTextureID\<close> and
  \<^verbatim>\<open>FindTextureSlot\<close> answer every tag as before the call.
\<close>

theorem CreateGLTexture_false_leaves_registry:
  assumes "CreateGLTexture stbi_load filename tg p = Inr (False, p')"
  shows "m_loadedTextures (mgr p') = m_loadedTextures (mgr p)
       \<and> m_textureIDs (mgr p') = m_textureIDs (mgr p)
       \<and> registered (mgr p') = registered (mgr p)
       \<and> FindTextureID (mgr p') t = FindTextureID (mgr p) t
       \<and> FindTextureSlot (mgr p') t = FindTextureSlot (mgr p) t"
proof -
  have "mgr p' = mgr p"
  proof (cases "loadable stbi_load filename")
    case False
    from CreateGLTexture_not_loadable [OF False, of tg p] assms show ?thesis by auto
  next
    case True
    show ?thesis
    proof (cases "0 \<le> m_loadedTextures (mgr p)
                  \<and> m_loadedTextures (mgr p) < int (length (m_textureIDs (mgr p)))")
      case room: True
      from CreateGLTexture_loadable_room [OF True, of p tg] room assms show ?thesis by auto
    next
      case False
      from CreateGLTexture_loadable_no_room [OF True False, of tg] assms show ?thesis by simp
    qed
  qed
  then show ?thesis by simp
qed

theorem CreateGLTexture_false_leaves_registry_witness:
  "(\<exists>p'. CreateGLTexture example_files ''ga.png'' ''grey'' example_process = Inr (False, p')
      \<and> m_loadedTextures (mgr p') = 0 \<and> registered (mgr p') = []
      \<and> FindTextureID (mgr p') ''grey'' = Inr (- 1)
      \<and> FindTextureSlot (mgr p') ''grey'' = Inr (- 1))
   \<and> (\<exists>p'. CreateGLTexture example_files ''none.png'' ''none'' example_process = Inr (False, p')
      \<and> m_loadedTextures (mgr p') = 0 \<and> registered (mgr p') = [])"
proof -
  have reg: "registered (mgr example_process) = []" "m_loadedTextures (mgr example_process) = 0"
    by (simp_all add: registered_def example_process_def empty_manager_def)
  have un: "FindTextureID (mgr example_process) ''grey'' = Inr (- 1)"
           "FindTextureSlot (mgr example_process) ''grey'' = Inr (- 1)"
    using unregistered_no_index [of "mgr example_process" "''grey''"]
    by (simp_all add: FindTextureID_def FindTextureSlot_def example_process_def empty_manager_def
          FindTextureID_while.simps FindTextureSlot_while.simps)
  have n1: "\<not> loadable example_files ''ga.png''" and n2: "\<not> loadable example_files ''none.png''"
    by (simp_all add: loadable_def example_files_def)
  from CreateGLTexture_not_loadable [OF n1, of "''grey''" example_process]
  obtain p1 where p1: "CreateGLTexture example_files ''ga.png'' ''grey'' example_process = Inr (False, p1)"
    by blast
  from CreateGLTexture_not_loadable [OF n2, of "''none''" example_process]
  obtain p2 where p2: "CreateGLTexture example_files ''none.png'' ''none'' example_process = Inr (False, p2)"
    by blast
  show ?thesis
    using p1 p2 reg un
      CreateGLTexture_false_leaves_registry [OF p1, of "''grey''"]
      CreateGLTexture_false_leaves_registry [OF p2, of "''none''"]
    by simp
qed

section \<open>Releasing the textures\<close>

lemma DestroyGLTextures_body_frame:
  assumes "0 \<le> i" and "i < int (length (m_textureIDs (mgr p)))"
  shows "m_loadedTextures (mgr (DestroyGLTextures_body i p)) = m_loadedTextures (mgr p)"
    and "length (m_textureIDs (mgr (DestroyGLTextures_body i p))) = length (m_textureIDs (mgr p))"
    and "map TEXTURE_INFO.tag (m_textureIDs (mgr (DestroyGLTextures_body i p)))
           = map TEXTURE_INFO.tag (m_textureIDs (mgr p))"
    and "gl_names (gl (DestroyGLTextures_body i p)) = gl_names (gl p) @ [fst (glGenTextures (gl p))]"
    and "gl_texture (gl (DestroyGLTextures_body i p)) = gl_texture (gl p)"
proof -
  have n: "nat i < length (m_textureIDs (mgr p))" using assms by simp
  show "m_loadedTextures (mgr (DestroyGLTextures_body i p)) = m_loadedTextures (mgr p)"
    and "length (m_textureIDs (mgr (DestroyGLTextures_body i p))) = length (m_textureIDs (mgr p))"
    and "gl_names (gl (DestroyGLTextures_body i p)) = gl_names (gl p) @ [fst (glGenTextures (gl p))]"
    and "gl_texture (gl (DestroyGLTextures_body i p)) = gl_texture (gl p)"
    by (simp_all add: DestroyGLTextures_body_def glGenTextures_def)
  show "map TEXTURE_INFO.tag (m_textureIDs (mgr (DestroyGLTextures_body i p)))
           = map TEXTURE_INFO.tag (m_textureIDs (mgr p))"
    using n by (simp add: DestroyGLTextures_body_def map_update list_update_same_conv)
qed

lemma DestroyGLTextures_for_frame:
  assumes "0 \<le> i"
    and "m_loadedTextures (mgr p) \<le> int (length (m_textureIDs (mgr p)))"
  shows "\<exists>p' new. DestroyGLTextures_for i p = Inr p'
           \<and> m_loadedTextures (mgr p') = m_loadedTextures (mgr p)
           \<and> map TEXTURE_INFO.tag (m_textureIDs (mgr p')) = map TEXTURE_INFO.tag (m_textureIDs (mgr p))
           \<and> gl_names (gl p') = gl_names (gl p) @ new
           \<and> gl_texture (gl p') = gl_texture (gl p)"
  using assms
proof (induction "nat (m_loadedTextures (mgr p) - i)" arbitrary: i p)
  case 0
  then have "\<not> i < m_loadedTextures (mgr p)" by simp
  then have "DestroyGLTextures_for i p = Inr p"
    by (subst DestroyGLTextures_for.simps) simp
  then show ?case by simp
next
  case (Suc d)
  from Suc.hyps(2) have lt: "i < m_loadedTextures (mgr p)" by simp
  with Suc.prems have r: "0 \<le> i" "i < int (length (m_textureIDs (mgr p)))" by simp_all
  note f = DestroyGLTextures_body_frame [OF r]
  have unf: "DestroyGLTextures_for i p = DestroyGLTextures_for (i + 1) (DestroyGLTextures_body i p)"
    using lt r by (subst DestroyGLTextures_for.simps) (simp add: DestroyGLTextures_body_def)
  have d: "d = nat (m_loadedTextures (mgr (DestroyGLTextures_body i p)) - (i + 1))"
    using Suc.hyps(2) f(1) by simp
  have i1: "0 \<le> i + 1" using r by simp
  have wf: "m_loadedTextures (mgr (DestroyGLTextures_body i p))
              \<le> int (length (m_textureIDs (mgr (DestroyGLTextures_body i p))))"
    using Suc.prems(2) f(1,2) by simp
  from Suc.hyps(1) [OF d i1 wf]
  obtain p' new where p': "DestroyGLTextures_for (i + 1) (DestroyGLTextures_body i p) = Inr p'"
    "m_loadedTextures (mgr p') = m_loadedTextures (mgr (DestroyGLTextures_body i p))"
    "map TEXTURE_INFO.tag (m_textureIDs (mgr p'))
       = map TEXTURE_INFO.tag (m_textureIDs (mgr (DestroyGLTextures_body i p)))"
    "gl_names (gl p') = gl_names (gl (DestroyGLTextures_body i p)) @ new"
    "gl_texture (gl p') = gl_texture (gl (DestroyGLTextures_body i p))"
    by blast
  show ?case
    unfolding unf using p' f
    by (intro exI[of _ p'] exI[of _ "fst (glGenTextures (gl p)) # new"]) simp
qed

lemma loaded_process_wf:
  "m_loadedTextures (mgr loaded_process) \<le> int (length (m_textureIDs (mgr loaded_process)))"
  by (simp add: loaded_process_def twice_manager_def)

text \<open>
  What the routine does do: every registered entry gets a newly generated name as its ID,
  and the names generated before stay allocated.
\<close>

lemma DestroyGLTextures_overwrites_IDs:
  "\<exists>p'. DestroyGLTextures loaded_process = Inr p'
     \<and> registered (mgr p') = [\<lparr>ID = 4, tag = ''b''\<rparr>, \<lparr>ID = 5, tag = ''a''\<rparr>, \<lparr>ID = 6, tag = ''a''\<rparr>]
     \<and> gl_names (gl p') = [1, 2, 3, 4, 5, 6]"
  by (simp add: DestroyGLTextures_def DestroyGLTextures_for.simps loaded_process_def
        twice_manager_def example_gl_def DestroyGLTextures_body_def glGenTextures_def registered_def)

section \<open>Claim about releasing the textures\<close>

text \<open>
  C7. \<^verbatim>\<open>DestroyGLTextures\<close> frees nothing. With the count within the array, the call
  returns; the count is what it was; the registered entries carry the same tags in the
  same order; every texture name that was allocated is still allocated, and no texture
  object has changed.
\<close>

theorem DestroyGLTextures_frees_nothing:
  assumes "m_loadedTextures (mgr p) \<le> int (length (m_textureIDs (mgr p)))"
  shows "\<exists>p'. DestroyGLTextures p = Inr p'
           \<and> m_loadedTextures (mgr p') = m_loadedTextures (mgr p)
           \<and> map TEXTURE_INFO.tag (registered (mgr p')) = map TEXTURE_INFO.tag (registered (mgr p))
           \<and> set (gl_names (gl p)) \<subseteq> set (gl_names (gl p'))
           \<and> gl_texture (gl p') = gl_texture (gl p)"
proof -
  from DestroyGLTextures_for_frame [of 0 p] assms
  obtain p' new where p': "DestroyGLTextures_for 0 p = Inr p'"
    "m_loadedTextures (mgr p') = m_loadedTextures (mgr p)"
    "map TEXTURE_INFO.tag (m_textureIDs (mgr p')) = map TEXTURE_INFO.tag (m_textureIDs (mgr p))"
    "gl_names (gl p') = gl_names (gl p) @ new"
    "gl_texture (gl p') = gl_texture (gl p)"
    by auto
  have "map TEXTURE_INFO.tag (registered (mgr p')) = map TEXTURE_INFO.tag (registered (mgr p))"
    using p'(2,3) by (simp add: registered_def take_map [symmetric])
  then show ?thesis
    using p' by (intro exI[of _ p']) (simp add: DestroyGLTextures_def)
qed

theorem DestroyGLTextures_frees_nothing_witness:
  "m_loadedTextures (mgr loaded_process) \<le> int (length (m_textureIDs (mgr loaded_process)))
   \<and> (\<exists>p'. DestroyGLTextures loaded_process = Inr p'
          \<and> m_loadedTextures (mgr p') = 3
          \<and> map TEXTURE_INFO.tag (registered (mgr p')) = [''b'', ''a'', ''a'']
          \<and> {1, 2, 3} \<subseteq> set (gl_names (gl p')))"
proof -
  have m: "mgr loaded_process = twice_manager" by (simp add: loaded_process_def)
  have a: "m_loadedTextures (mgr loaded_process) = 3"
    and c: "set (gl_names (gl loaded_process)) = {1, 2, 3}"
    by (simp_all add: loaded_process_def twice_manager_def)
  have b: "map TEXTURE_INFO.tag (registered (mgr loaded_process)) = [''b'', ''a'', ''a'']"
    by (simp add: m twice_manager_registered)
  show ?thesis
    using loaded_process_wf DestroyGLTextures_frees_nothing [OF loaded_process_wf] a b c
    by auto
qed

section \<open>Loading a sequence of textures and binding them\<close>

lemma bind_on_unit:
  assumes "0 \<le> i" and "i < int (gl_max_units g)"
  shows "gl_bound (glBindTexture name (glActiveTexture i g)) = (gl_bound g)(nat i := name)"
    and "gl_max_units (glBindTexture name (glActiveTexture i g)) = gl_max_units g"
  using assms by (simp_all add: glBindTexture_def glActiveTexture_def)

lemma BindGLTextures_for_binds:
  assumes "0 \<le> i"
    and "m_loadedTextures s \<le> int (length (m_textureIDs s))"
    and "m_loadedTextures s \<le> int (gl_max_units g)"
  shows "\<exists>g'. BindGLTextures_for s i g = Inr g'
           \<and> (\<forall>n. nat i \<le> n \<and> int n < m_loadedTextures s \<longrightarrow> gl_bound g' n = ID (m_textureIDs s ! n))
           \<and> (\<forall>n. n < nat i \<longrightarrow> gl_bound g' n = gl_bound g n)"
  using assms
proof (induction "nat (m_loadedTextures s - i)" arbitrary: i g)
  case 0
  then have "\<not> i < m_loadedTextures s" by simp
  then have "BindGLTextures_for s i g = Inr g"
    by (subst BindGLTextures_for.simps) simp
  then show ?case using 0 by auto
next
  case (Suc d)
  from Suc.hyps(2) have lt: "i < m_loadedTextures s" by simp
  with Suc.prems have r: "0 \<le> i" "i < int (length (m_textureIDs s))" "i < int (gl_max_units g)"
    by simp_all
  define g1 where "g1 = glBindTexture (ID (m_textureIDs s ! nat i)) (glActiveTexture i g)"
  have b1: "gl_bound g1 = (gl_bound g)(nat i := ID (m_textureIDs s ! nat i))"
    and m1: "gl_max_units g1 = gl_max_units g"
    unfolding g1_def by (rule bind_on_unit [OF r(1) r(3)])+
  have unf: "BindGLTextures_for s i g = BindGLTextures_for s (i + 1) g1"
    using lt r by (subst BindGLTextures_for.simps) (simp add: g1_def)
  have d: "d = nat (m_loadedTextures s - (i + 1))" using Suc.hyps(2) by simp
  have i1: "0 \<le> i + 1" using r by simp
  have mu: "m_loadedTextures s \<le> int (gl_max_units g1)" using Suc.prems(3) m1 by simp
  from Suc.hyps(1) [OF d i1 Suc.prems(2) mu]
  obtain g' where g': "BindGLTextures_for s (i + 1) g1 = Inr g'"
    and hi: "\<forall>n. nat (i + 1) \<le> n \<and> int n < m_loadedTextures s \<longrightarrow> gl_bound g' n = ID (m_textureIDs s ! n)"
    and lo: "\<forall>n. n < nat (i + 1) \<longrightarrow> gl_bound g' n = gl_bound g1 n"
    by blast
  have s1: "nat (i + 1) = Suc (nat i)" using r(1) by simp
  have "gl_bound g' n = ID (m_textureIDs s ! n)" if n: "nat i \<le> n" "int n < m_loadedTextures s" for n
  proof (cases "n = nat i")
    case True
    then have "gl_bound g' n = gl_bound g1 n" using lo s1 by simp
    then show ?thesis using True b1 by simp
  next
    case False
    then have "nat (i + 1) \<le> n" using n(1) s1 by simp
    then show ?thesis using hi n(2) by simp
  qed
  moreover have "gl_bound g' n = gl_bound g n" if n: "n < nat i" for n
  proof -
    have "gl_bound g' n = gl_bound g1 n" using lo n s1 by simp
    then show ?thesis using n b1 by simp
  qed
  ultimately show ?case unfolding unf using g' by blast
qed

lemma BindGLTextures_binds:
  assumes "m_loadedTextures (mgr p) \<le> int (length (m_textureIDs (mgr p)))"
    and "m_loadedTextures (mgr p) \<le> int (gl_max_units (gl p))"
  shows "\<exists>p'. BindGLTextures p = Inr p' \<and> mgr p' = mgr p
           \<and> (\<forall>n < length (registered (mgr p)). gl_bound (gl p') n = ID (registered (mgr p) ! n))"
proof -
  from BindGLTextures_for_binds [of 0 "mgr p" "gl p"] assms
  obtain g' where g': "BindGLTextures_for (mgr p) 0 (gl p) = Inr g'"
    and hi: "\<forall>n. int n < m_loadedTextures (mgr p) \<longrightarrow> gl_bound g' n = ID (m_textureIDs (mgr p) ! n)"
    by auto
  have "gl_bound g' n = ID (registered (mgr p) ! n)" if "n < length (registered (mgr p))" for n
  proof -
    from that have "n < nat (m_loadedTextures (mgr p))" by (simp add: registered_def)
    then have "int n < m_loadedTextures (mgr p)" by linarith
    with hi have "gl_bound g' n = ID (m_textureIDs (mgr p) ! n)" by blast
    moreover from that have "registered (mgr p) ! n = m_textureIDs (mgr p) ! n"
      by (simp add: registered_def)
    ultimately show ?thesis by simp
  qed
  then show ?thesis
    using g' by (intro exI[of _ "p\<lparr>gl := g'\<rparr>"]) (simp add: BindGLTextures_def)
qed

text \<open>
  The texture names through a call of \<^verbatim>\<open>CreateGLTexture\<close>: a file that decodes makes the
  call generate exactly one name, and no other call of the function touches the names.
\<close>

lemma glGenTextures_fst: "fst (glGenTextures g) = gl_gen g (gl_names g)"
  by (simp add: glGenTextures_def)

lemma gl_names_glGenTextures:
  "gl_names (snd (glGenTextures g)) = gl_names g @ [fst (glGenTextures g)]"
  "gl_gen (snd (glGenTextures g)) = gl_gen g"
  by (simp_all add: glGenTextures_def)

lemma gl_names_glBindTexture:
  "gl_names (glBindTexture name g) = gl_names g" "gl_gen (glBindTexture name g) = gl_gen g"
  by (simp_all add: glBindTexture_def)

lemma gl_names_glTexParameteri:
  "gl_names (glTexParameteri pn v g) = gl_names g" "gl_gen (glTexParameteri pn v g) = gl_gen g"
  by (simp_all add: glTexParameteri_def)

lemma gl_names_glTexImage2D:
  "gl_names (glTexImage2D f w h fmt d g) = gl_names g" "gl_gen (glTexImage2D f w h fmt d g) = gl_gen g"
  by (simp_all add: glTexImage2D_def)

lemma gl_names_glGenerateMipmap:
  "gl_names (glGenerateMipmap g) = gl_names g" "gl_gen (glGenerateMipmap g) = gl_gen g"
  by (simp_all add: glGenerateMipmap_def)

lemmas gl_names_simps =
  gl_names_glGenTextures gl_names_glBindTexture gl_names_glTexParameteri
  gl_names_glTexImage2D gl_names_glGenerateMipmap

lemma CreateGLTexture_register_gl:
  assumes "CreateGLTexture_register textureID tg q = Inr (bReturn, p')"
  shows "gl p' = glBindTexture 0 (glGenerateMipmap (gl q))"
  using assms by (auto simp add: CreateGLTexture_register_def Let_def split: if_splits)

lemma CreateGLTexture_names_None:
  assumes "stbi_load filename = None"
    and "CreateGLTexture stbi_load filename tg p = Inr (bReturn, p')"
  shows "gl_gen (gl p') = gl_gen (gl p) \<and> gl_names (gl p') = gl_names (gl p)"
  using assms by (auto simp add: CreateGLTexture_def)

lemma CreateGLTexture_names_Some:
  assumes "stbi_load filename = Some img"
    and "CreateGLTexture stbi_load filename tg p = Inr (bReturn, p')"
  shows "gl_gen (gl p') = gl_gen (gl p)
       \<and> gl_names (gl p') = gl_names (gl p) @ [fst (glGenTextures (gl p))]"
proof -
  define g6 where "g6 = glTexParameteri GL_TEXTURE_MAG_FILTER GL_LINEAR
      (glTexParameteri GL_TEXTURE_MIN_FILTER GL_LINEAR
        (glTexParameteri GL_TEXTURE_WRAP_T GL_REPEAT
          (glTexParameteri GL_TEXTURE_WRAP_S GL_REPEAT
            (glBindTexture (fst (glGenTextures (gl p))) (snd (glGenTextures (gl p)))))))"
  have n6: "gl_names g6 = gl_names (gl p) @ [fst (glGenTextures (gl p))]"
    and e6: "gl_gen g6 = gl_gen (gl p)"
    by (simp_all add: g6_def gl_names_simps)
  consider (three) "colorChannels img = 3"
    | (four) "colorChannels img \<noteq> 3" "colorChannels img = 4"
    | (other) "colorChannels img \<noteq> 3" "colorChannels img \<noteq> 4"
    by blast
  then show ?thesis
  proof cases
    case three
    define q where "q = p\<lparr>gl := glTexImage2D GL_RGB8 (width img) (height img) GL_RGB (pixels img) g6,
        console := console p @
          [Successfully_loaded_image filename (width img) (height img) (colorChannels img)]\<rparr>"
    have "CreateGLTexture stbi_load filename tg p
            = CreateGLTexture_register (fst (glGenTextures (gl p))) tg q"
      using three by (simp add: CreateGLTexture_def assms(1) Let_def split_beta q_def g6_def)
    with assms(2) have "gl p' = glBindTexture 0 (glGenerateMipmap (gl q))"
      using CreateGLTexture_register_gl by metis
    then show ?thesis using n6 e6 by (simp add: q_def gl_names_simps)
  next
    case four
    define q where "q = p\<lparr>gl := glTexImage2D GL_RGBA8 (width img) (height img) GL_RGBA (pixels img) g6,
        console := console p @
          [Successfully_loaded_image filename (width img) (height img) (colorChannels img)]\<rparr>"
    have "CreateGLTexture stbi_load filename tg p
            = CreateGLTexture_register (fst (glGenTextures (gl p))) tg q"
      using four by (simp add: CreateGLTexture_def assms(1) Let_def split_beta q_def g6_def)
    with assms(2) have "gl p' = glBindTexture 0 (glGenerateMipmap (gl q))"
      using CreateGLTexture_register_gl by metis
    then show ?thesis using n6 e6 by (simp add: q_def gl_names_simps)
  next
    case other
    have "gl p' = g6"
      using other assms(2)
      by (auto simp add: CreateGLTexture_def assms(1) Let_def split_beta g6_def)
    then show ?thesis using n6 e6 by simp
  qed
qed

lemma current_texture_glBindTexture: "current_texture (glBindTexture name g) = name"
  by (simp add: current_texture_def glBindTexture_def)

lemma current_texture_glTexParameteri:
  "current_texture (glTexParameteri pn v g) = current_texture g"
  by (simp add: current_texture_def glTexParameteri_def)

lemma tex_image_glTexParameteri:
  "tex_image (gl_texture (glTexParameteri pn v g) name) = tex_image (gl_texture g name)"
  by (simp add: glTexParameteri_def)

lemma tex_image_glTexImage2D:
  "tex_image (gl_texture (glTexImage2D f w h fmt d g) (current_texture g)) = Some (f, w, h, fmt, d)"
  by (simp add: glTexImage2D_def)

lemma tex_image_glGenerateMipmap:
  "tex_image (gl_texture (glGenerateMipmap g) name) = tex_image (gl_texture g name)"
  by (simp add: glGenerateMipmap_def)

lemma gl_texture_glBindTexture: "gl_texture (glBindTexture name g) = gl_texture g"
  by (simp add: glBindTexture_def)

text \<open>
  A call that returns \<^verbatim>\<open>true\<close> leaves the file's pixels, in the format of its channel
  count, as the image of the texture object that carries the generated name.
\<close>

lemma CreateGLTexture_uploads:
  assumes "stbi_load filename = Some img"
    and "CreateGLTexture stbi_load filename tg p = Inr (True, p')"
  shows "tex_image (gl_texture (gl p') (fst (glGenTextures (gl p)))) =
           Some (if colorChannels img = 3
                 then (GL_RGB8, width img, height img, GL_RGB, pixels img)
                 else (GL_RGBA8, width img, height img, GL_RGBA, pixels img))"
proof -
  define name where "name = fst (glGenTextures (gl p))"
  define g6 where "g6 = glTexParameteri GL_TEXTURE_MAG_FILTER GL_LINEAR
      (glTexParameteri GL_TEXTURE_MIN_FILTER GL_LINEAR
        (glTexParameteri GL_TEXTURE_WRAP_T GL_REPEAT
          (glTexParameteri GL_TEXTURE_WRAP_S GL_REPEAT
            (glBindTexture name (snd (glGenTextures (gl p)))))))"
  have cur: "current_texture g6 = name"
    by (simp add: g6_def current_texture_glTexParameteri current_texture_glBindTexture)
  have up: "tex_image (gl_texture (glBindTexture 0 (glGenerateMipmap (glTexImage2D f w h fmt d g6))) name)
              = Some (f, w, h, fmt, d)" for f w h fmt d
    using tex_image_glTexImage2D [of f w h fmt d g6]
    by (simp add: gl_texture_glBindTexture tex_image_glGenerateMipmap cur)
  consider (three) "colorChannels img = 3"
    | (four) "colorChannels img \<noteq> 3" "colorChannels img = 4"
    | (other) "colorChannels img \<noteq> 3" "colorChannels img \<noteq> 4"
    by blast
  then show ?thesis
  proof cases
    case three
    define q where "q = p\<lparr>gl := glTexImage2D GL_RGB8 (width img) (height img) GL_RGB (pixels img) g6,
        console := console p @
          [Successfully_loaded_image filename (width img) (height img) (colorChannels img)]\<rparr>"
    have "CreateGLTexture stbi_load filename tg p = CreateGLTexture_register name tg q"
      using three by (simp add: CreateGLTexture_def assms(1) Let_def split_beta q_def g6_def name_def)
    with assms(2) have "gl p' = glBindTexture 0 (glGenerateMipmap (gl q))"
      using CreateGLTexture_register_gl by metis
    then show ?thesis
      unfolding name_def [symmetric] using three up by (simp add: q_def)
  next
    case four
    define q where "q = p\<lparr>gl := glTexImage2D GL_RGBA8 (width img) (height img) GL_RGBA (pixels img) g6,
        console := console p @
          [Successfully_loaded_image filename (width img) (height img) (colorChannels img)]\<rparr>"
    have "CreateGLTexture stbi_load filename tg p = CreateGLTexture_register name tg q"
      using four by (simp add: CreateGLTexture_def assms(1) Let_def split_beta q_def g6_def name_def)
    with assms(2) have "gl p' = glBindTexture 0 (glGenerateMipmap (gl q))"
      using CreateGLTexture_register_gl by metis
    then show ?thesis
      unfolding name_def [symmetric] using four up by (simp add: q_def)
  next
    case other
    then have False
      using assms(2) by (auto simp add: CreateGLTexture_def assms(1) Let_def split_beta)
    then show ?thesis ..
  qed
qed

lemma loaded_tags_Cons:
  "loaded_tags stbi_load ((filename, tg) # rest) =
     (if loadable stbi_load filename then tg # loaded_tags stbi_load rest
      else loaded_tags stbi_load rest)"
  by (simp add: loaded_tags_def)

text \<open>
  The loads that fit the array all return; the registry grows by the entries of the calls
  that returned \<^verbatim>\<open>true\<close>, each carrying the name its own \<^verbatim>\<open>glGenTextures\<close> generated.
\<close>

lemma LoadTextures_registry:
  assumes "0 \<le> m_loadedTextures (mgr p)"
    and "m_loadedTextures (mgr p) + int (length (loaded_tags stbi_load loads))
           \<le> int (length (m_textureIDs (mgr p)))"
  shows "\<exists>p'. LoadTextures stbi_load loads p = Inr p'
           \<and> length (m_textureIDs (mgr p')) = length (m_textureIDs (mgr p))
           \<and> m_loadedTextures (mgr p') = m_loadedTextures (mgr p) + int (length (loaded_tags stbi_load loads))
           \<and> registered (mgr p') = registered (mgr p) @ loaded_entries stbi_load loads p
           \<and> map TEXTURE_INFO.tag (loaded_entries stbi_load loads p) = loaded_tags stbi_load loads
           \<and> loaded_entries stbi_load loads p
               = generated_entries stbi_load (gl_gen (gl p)) (gl_names (gl p)) loads
           \<and> gl_max_units (gl p') = gl_max_units (gl p)"
  using assms
proof (induction loads arbitrary: p)
  case Nil
  then show ?case by (simp add: loaded_tags_def)
next
  case (Cons a rest)
  obtain filename tg where a: "a = (filename, tg)" by (cases a)
  show ?case
  proof (cases "loadable stbi_load filename")
    case True
    then obtain img where img: "stbi_load filename = Some img"
      and ch: "colorChannels img = 3 \<or> colorChannels img = 4"
      by (auto simp: loadable_iff)
    have room: "m_loadedTextures (mgr p) < int (length (m_textureIDs (mgr p)))"
      using Cons.prems(2) True by (simp add: a loaded_tags_Cons)
    define e where "e = \<lparr>ID = fst (glGenTextures (gl p)), tag = tg\<rparr>"
    from CreateGLTexture_loadable_room [OF True Cons.prems(1) room, of tg]
    obtain p1 where c: "CreateGLTexture stbi_load filename tg p = Inr (True, p1)"
      and m: "mgr p1 = (mgr p)\<lparr>m_textureIDs :=
                          (m_textureIDs (mgr p))[nat (m_loadedTextures (mgr p)) := e],
                        m_loadedTextures := m_loadedTextures (mgr p) + 1\<rparr>"
      and u: "gl_max_units (gl p1) = gl_max_units (gl p)"
      unfolding e_def by blast
    from CreateGLTexture_names_Some [OF img c]
    have nm: "gl_gen (gl p1) = gl_gen (gl p)"
      "gl_names (gl p1) = gl_names (gl p) @ [gl_gen (gl p) (gl_names (gl p))]"
      by (simp_all add: glGenTextures_fst)
    have reg: "registered (mgr p1) = registered (mgr p) @ [e]"
      unfolding m by (rule registered_after_register [OF Cons.prems(1) room])
    have cnt: "m_loadedTextures (mgr p1) = m_loadedTextures (mgr p) + 1"
      and len: "length (m_textureIDs (mgr p1)) = length (m_textureIDs (mgr p))"
      unfolding m by simp_all
    have p1a: "0 \<le> m_loadedTextures (mgr p1)" using cnt Cons.prems(1) by simp
    have p1b: "m_loadedTextures (mgr p1) + int (length (loaded_tags stbi_load rest))
                 \<le> int (length (m_textureIDs (mgr p1)))"
      using Cons.prems(2) True cnt len by (simp add: a loaded_tags_Cons)
    from Cons.IH [OF p1a p1b]
    obtain p' where p': "LoadTextures stbi_load rest p1 = Inr p'"
      "length (m_textureIDs (mgr p')) = length (m_textureIDs (mgr p1))"
      "m_loadedTextures (mgr p') = m_loadedTextures (mgr p1) + int (length (loaded_tags stbi_load rest))"
      "registered (mgr p') = registered (mgr p1) @ loaded_entries stbi_load rest p1"
      "map TEXTURE_INFO.tag (loaded_entries stbi_load rest p1) = loaded_tags stbi_load rest"
      "loaded_entries stbi_load rest p1
         = generated_entries stbi_load (gl_gen (gl p1)) (gl_names (gl p1)) rest"
      "gl_max_units (gl p') = gl_max_units (gl p1)"
      by blast
    have run: "LoadTextures stbi_load (a # rest) p = Inr p'"
      using c p'(1) by (simp add: a)
    have ent: "loaded_entries stbi_load (a # rest) p = e # loaded_entries stbi_load rest p1"
      using c by (simp add: a e_def)
    have gen: "generated_entries stbi_load (gl_gen (gl p)) (gl_names (gl p)) (a # rest)
                 = e # generated_entries stbi_load (gl_gen (gl p1)) (gl_names (gl p1)) rest"
      using ch by (simp add: a img nm e_def glGenTextures_fst)
    show ?thesis
      using run p'(2,3,4,5,6,7) reg cnt len u True ent gen
      by (intro exI[of _ p']) (simp add: a loaded_tags_Cons e_def)
  next
    case False
    from CreateGLTexture_not_loadable [OF False, of tg p]
    obtain p1 where c: "CreateGLTexture stbi_load filename tg p = Inr (False, p1)"
      and m: "mgr p1 = mgr p" and u: "gl_max_units (gl p1) = gl_max_units (gl p)"
      by blast
    define p2 where "p2 = p1\<lparr>console := console p1 @ [Error_loading_texture_for tg]\<rparr>"
    have m2: "mgr p2 = mgr p" and u2: "gl_max_units (gl p2) = gl_max_units (gl p)"
      and g2: "gl p2 = gl p1"
      using m u by (simp_all add: p2_def)
    have p2a: "0 \<le> m_loadedTextures (mgr p2)" using Cons.prems(1) m2 by simp
    have p2b: "m_loadedTextures (mgr p2) + int (length (loaded_tags stbi_load rest))
                 \<le> int (length (m_textureIDs (mgr p2)))"
      using Cons.prems(2) False m2 by (simp add: a loaded_tags_Cons)
    from Cons.IH [OF p2a p2b]
    obtain p' where p': "LoadTextures stbi_load rest p2 = Inr p'"
      "length (m_textureIDs (mgr p')) = length (m_textureIDs (mgr p2))"
      "m_loadedTextures (mgr p') = m_loadedTextures (mgr p2) + int (length (loaded_tags stbi_load rest))"
      "registered (mgr p') = registered (mgr p2) @ loaded_entries stbi_load rest p2"
      "map TEXTURE_INFO.tag (loaded_entries stbi_load rest p2) = loaded_tags stbi_load rest"
      "loaded_entries stbi_load rest p2
         = generated_entries stbi_load (gl_gen (gl p2)) (gl_names (gl p2)) rest"
      "gl_max_units (gl p') = gl_max_units (gl p2)"
      by blast
    have run: "LoadTextures stbi_load (a # rest) p = Inr p'"
      using c p'(1) by (simp add: a p2_def)
    have ent: "loaded_entries stbi_load (a # rest) p = loaded_entries stbi_load rest p2"
      using c by (simp add: a p2_def)
    have gen: "generated_entries stbi_load (gl_gen (gl p)) (gl_names (gl p)) (a # rest)
                 = generated_entries stbi_load (gl_gen (gl p2)) (gl_names (gl p2)) rest"
    proof (cases "stbi_load filename")
      case None
      from CreateGLTexture_names_None [OF None c] show ?thesis
        by (simp add: a None g2)
    next
      case (Some img)
      with False have "\<not> (colorChannels img = 3 \<or> colorChannels img = 4)"
        by (simp add: loadable_iff)
      with CreateGLTexture_names_Some [OF Some c] show ?thesis
        by (simp add: a Some g2 glGenTextures_fst)
    qed
    show ?thesis
      using run p'(2,3,4,5,6,7) m2 u2 False ent gen
      by (intro exI[of _ p']) (simp add: a loaded_tags_Cons)
  qed
qed

lemma first_index:
  assumes "tg \<in> set tags"
  shows "\<exists>n<length tags. tags ! n = tg \<and> (\<forall>k<n. tags ! k \<noteq> tg)"
proof -
  define P where "P = (\<lambda>n. n < length tags \<and> tags ! n = tg)"
  from assms have ex: "\<exists>n. P n" by (auto simp: P_def in_set_conv_nth)
  define n where "n = (LEAST n. P n)"
  have "P n" unfolding n_def using ex by (rule LeastI_ex)
  moreover have "\<not> P k" if "k < n" for k
    using that not_less_Least unfolding n_def by blast
  ultimately show ?thesis
    unfolding P_def by (intro exI[of _ n]) auto
qed

lemma LoadAndBind_result:
  assumes "m_loadedTextures (mgr p) = 0"
    and "length (loaded_tags stbi_load loads) \<le> length (m_textureIDs (mgr p))"
    and "length (loaded_tags stbi_load loads) \<le> gl_max_units (gl p)"
  shows "\<exists>p'. LoadAndBind stbi_load loads p = Inr p'
           \<and> registered (mgr p') = loaded_entries stbi_load loads p
           \<and> map TEXTURE_INFO.tag (loaded_entries stbi_load loads p) = loaded_tags stbi_load loads
           \<and> loaded_entries stbi_load loads p
               = generated_entries stbi_load (gl_gen (gl p)) (gl_names (gl p)) loads
           \<and> (\<forall>n<length (loaded_entries stbi_load loads p).
                  gl_bound (gl p') n = ID (loaded_entries stbi_load loads p ! n))"
proof -
  have reg0: "registered (mgr p) = []" using assms(1) by (simp add: registered_def)
  from LoadTextures_registry [of p stbi_load loads] assms(1,2)
  obtain p1 where p1: "LoadTextures stbi_load loads p = Inr p1"
    "length (m_textureIDs (mgr p1)) = length (m_textureIDs (mgr p))"
    "m_loadedTextures (mgr p1) = int (length (loaded_tags stbi_load loads))"
    "registered (mgr p1) = loaded_entries stbi_load loads p"
    "map TEXTURE_INFO.tag (loaded_entries stbi_load loads p) = loaded_tags stbi_load loads"
    "loaded_entries stbi_load loads p
       = generated_entries stbi_load (gl_gen (gl p)) (gl_names (gl p)) loads"
    "gl_max_units (gl p1) = gl_max_units (gl p)"
    by (auto simp: reg0)
  have a: "m_loadedTextures (mgr p1) \<le> int (length (m_textureIDs (mgr p1)))"
    using p1(2,3) assms(2) by simp
  have b: "m_loadedTextures (mgr p1) \<le> int (gl_max_units (gl p1))"
    using p1(3,7) assms(3) by simp
  from BindGLTextures_binds [OF a b]
  obtain p' where p': "BindGLTextures p1 = Inr p'" "mgr p' = mgr p1"
    "\<forall>n < length (registered (mgr p1)). gl_bound (gl p') n = ID (registered (mgr p1) ! n)"
    by blast
  show ?thesis
    using p1(1,4,5,6) p' by (intro exI[of _ p']) (simp add: LoadAndBind_def)
qed

lemma abc_loaded_tags: "loaded_tags example_files abc_loads = [''a'', ''b'', ''c'']"
  by (simp add: loaded_tags_def abc_loads_def loadable_def example_files_def)

lemma aa_loaded_tags: "loaded_tags example_files aa_loads = [''a'', ''a'']"
  by (simp add: loaded_tags_def aa_loads_def loadable_def example_files_def)

lemma example_process_start:
  "m_loadedTextures (mgr example_process) = 0"
  "length (m_textureIDs (mgr example_process)) = 16"
  "gl_max_units (gl example_process) = 48"
  by (simp_all add: example_process_def empty_manager_def example_gl_def)

lemma abc_generated_entries:
  "generated_entries example_files (gl_gen (gl example_process)) (gl_names (gl example_process)) abc_loads
     = [\<lparr>ID = 1, tag = ''a''\<rparr>, \<lparr>ID = 3, tag = ''b''\<rparr>, \<lparr>ID = 4, tag = ''c''\<rparr>]"
  by (simp add: abc_loads_def example_files_def example_process_def example_gl_def)

lemma aa_generated_entries:
  "generated_entries example_files (gl_gen (gl example_process)) (gl_names (gl example_process)) aa_loads
     = [\<lparr>ID = 1, tag = ''a''\<rparr>, \<lparr>ID = 2, tag = ''a''\<rparr>]"
  by (simp add: aa_loads_def example_files_def example_process_def example_gl_def)

section \<open>Claim about load order and texture units\<close>

text \<open>
  C4, as the code has it. Start from an empty registry and run any sequence of loads whose
  successful ones fit the texture array and the texture units of the GL context, then
  \<^verbatim>\<open>BindGLTextures\<close>. The run returns. The registered textures are the successful loads in
  load order: the entry at index \<open>n\<close> carries the tag of the \<open>n\<close>-th successful load and, as
  its ID, the texture name that \<^verbatim>\<open>glGenTextures\<close> generated in that very call
  (\<open>loaded_entries\<close>; \<open>generated_entries\<close> gives the same names from the driver's choices
  alone). Texture unit \<open>n\<close> is bound to that name. \<^verbatim>\<open>FindTextureSlot\<close> on a registered tag
  returns the index of the first load that used the tag, which is a texture's own load
  index whenever no earlier load used its tag.
\<close>

theorem slot_is_first_load_index:
  assumes "m_loadedTextures (mgr p) = 0"
    and "length (loaded_tags stbi_load loads) \<le> length (m_textureIDs (mgr p))"
    and "length (loaded_tags stbi_load loads) \<le> gl_max_units (gl p)"
  shows "\<exists>p'. LoadAndBind stbi_load loads p = Inr p'
           \<and> registered (mgr p') = loaded_entries stbi_load loads p
           \<and> loaded_entries stbi_load loads p
               = generated_entries stbi_load (gl_gen (gl p)) (gl_names (gl p)) loads
           \<and> map TEXTURE_INFO.tag (registered (mgr p')) = loaded_tags stbi_load loads
           \<and> (\<forall>n<length (loaded_tags stbi_load loads).
                  gl_bound (gl p') n = ID (loaded_entries stbi_load loads p ! n)
                \<and> gl_bound (gl p') n = ID (registered (mgr p') ! n))
           \<and> (\<forall>n<length (loaded_tags stbi_load loads).
                  (\<forall>k<n. loaded_tags stbi_load loads ! k \<noteq> loaded_tags stbi_load loads ! n)
                  \<longrightarrow> FindTextureSlot (mgr p') (loaded_tags stbi_load loads ! n) = Inr (int n))
           \<and> (\<forall>tg \<in> set (loaded_tags stbi_load loads).
                  \<exists>n<length (loaded_tags stbi_load loads).
                     loaded_tags stbi_load loads ! n = tg
                   \<and> (\<forall>k<n. loaded_tags stbi_load loads ! k \<noteq> tg)
                   \<and> FindTextureSlot (mgr p') tg = Inr (int n))"
proof -
  define tags where "tags = loaded_tags stbi_load loads"
  define entries where "entries = loaded_entries stbi_load loads p"
  from LoadAndBind_result [OF assms]
  obtain p' where p': "LoadAndBind stbi_load loads p = Inr p'"
    and rg: "registered (mgr p') = entries"
    and tg: "map TEXTURE_INFO.tag entries = tags"
    and gn: "entries = generated_entries stbi_load (gl_gen (gl p)) (gl_names (gl p)) loads"
    and bd: "\<forall>n<length entries. gl_bound (gl p') n = ID (entries ! n)"
    unfolding tags_def entries_def by blast
  have len: "length entries = length tags" using tg by (metis length_map)
  have nth: "TEXTURE_INFO.tag (entries ! n) = tags ! n" if "n < length tags" for n
    using that tg len by (metis nth_map)
  have slot: "FindTextureSlot (mgr p') (tags ! n) = Inr (int n)"
    if n: "n < length tags" and first: "\<forall>k<n. tags ! k \<noteq> tags ! n" for n
  proof (rule FindTextureSlot_first)
    show "n < length (registered (mgr p'))" using n len rg by simp
    show "TEXTURE_INFO.tag (registered (mgr p') ! n) = tags ! n"
      unfolding rg by (rule nth [OF n])
    show "\<forall>k<n. TEXTURE_INFO.tag (registered (mgr p') ! k) \<noteq> tags ! n"
      unfolding rg using first n nth by simp
  qed
  have every: "\<exists>n<length tags. tags ! n = t \<and> (\<forall>k<n. tags ! k \<noteq> t)
                 \<and> FindTextureSlot (mgr p') t = Inr (int n)" if "t \<in> set tags" for t
  proof -
    from first_index [OF that]
    obtain n where n: "n < length tags" "tags ! n = t" "\<forall>k<n. tags ! k \<noteq> t" by blast
    from slot [of n] n have "FindTextureSlot (mgr p') t = Inr (int n)" by simp
    with n show ?thesis by blast
  qed
  have bound: "\<forall>n<length tags. gl_bound (gl p') n = ID (entries ! n)
                 \<and> gl_bound (gl p') n = ID (registered (mgr p') ! n)"
    using bd len rg by simp
  have c1: "registered (mgr p') = entries" by (rule rg)
  have c3: "map TEXTURE_INFO.tag (registered (mgr p')) = tags" using rg tg by simp
  have c5: "\<forall>n<length tags. (\<forall>k<n. tags ! k \<noteq> tags ! n)
              \<longrightarrow> FindTextureSlot (mgr p') (tags ! n) = Inr (int n)"
    using slot by blast
  have c6: "\<forall>t \<in> set tags. \<exists>n<length tags. tags ! n = t \<and> (\<forall>k<n. tags ! k \<noteq> t)
                 \<and> FindTextureSlot (mgr p') t = Inr (int n)"
    using every by blast
  show ?thesis
    unfolding tags_def [symmetric] entries_def [symmetric]
    using p' c1 gn c3 bound c5 c6 by (intro exI[of _ p'] conjI)
qed

text \<open>
  Tags \<^verbatim>\<open>a\<close>, \<^verbatim>\<open>b\<close>, \<^verbatim>\<open>c\<close> loaded in that order, with a failing two-channel load after
  the first, which uses up the name 2: the textures are named 1, 3 and 4, units 0, 1 and 2
  are bound to them in that order, and the slot of \<^verbatim>\<open>b\<close> is 1.
\<close>

theorem slot_is_first_load_index_witness:
  "m_loadedTextures (mgr example_process) = 0
   \<and> length (loaded_tags example_files abc_loads) \<le> length (m_textureIDs (mgr example_process))
   \<and> length (loaded_tags example_files abc_loads) \<le> gl_max_units (gl example_process)
   \<and> loaded_tags example_files abc_loads = [''a'', ''b'', ''c'']
   \<and> \<not> isl (LoadAndBind example_files abc_loads example_process)
   \<and> registered (mgr (projr (LoadAndBind example_files abc_loads example_process)))
       = [\<lparr>ID = 1, tag = ''a''\<rparr>, \<lparr>ID = 3, tag = ''b''\<rparr>, \<lparr>ID = 4, tag = ''c''\<rparr>]
   \<and> loaded_entries example_files abc_loads example_process
       = [\<lparr>ID = 1, tag = ''a''\<rparr>, \<lparr>ID = 3, tag = ''b''\<rparr>, \<lparr>ID = 4, tag = ''c''\<rparr>]
   \<and> gl_bound (gl (projr (LoadAndBind example_files abc_loads example_process))) 0 = 1
   \<and> gl_bound (gl (projr (LoadAndBind example_files abc_loads example_process))) 1 = 3
   \<and> gl_bound (gl (projr (LoadAndBind example_files abc_loads example_process))) 2 = 4
   \<and> FindTextureSlot (mgr (projr (LoadAndBind example_files abc_loads example_process))) ''b'' = Inr 1"
proof -
  have a: "m_loadedTextures (mgr example_process) = 0"
    and b: "length (loaded_tags example_files abc_loads) \<le> length (m_textureIDs (mgr example_process))"
    and c: "length (loaded_tags example_files abc_loads) \<le> gl_max_units (gl example_process)"
    by (simp_all add: example_process_start abc_loaded_tags)
  from slot_is_first_load_index [OF a b c]
  obtain p' where p': "LoadAndBind example_files abc_loads example_process = Inr p'"
    and rg: "registered (mgr p') = loaded_entries example_files abc_loads example_process"
    and gn: "loaded_entries example_files abc_loads example_process
               = generated_entries example_files (gl_gen (gl example_process))
                   (gl_names (gl example_process)) abc_loads"
    and bd: "\<forall>n<length (loaded_tags example_files abc_loads).
                  gl_bound (gl p') n = ID (loaded_entries example_files abc_loads example_process ! n)
                \<and> gl_bound (gl p') n = ID (registered (mgr p') ! n)"
    and sl: "\<forall>n<length (loaded_tags example_files abc_loads).
                  (\<forall>k<n. loaded_tags example_files abc_loads ! k \<noteq> loaded_tags example_files abc_loads ! n)
                  \<longrightarrow> FindTextureSlot (mgr p') (loaded_tags example_files abc_loads ! n) = Inr (int n)"
    by blast
  have ent: "loaded_entries example_files abc_loads example_process
       = [\<lparr>ID = 1, tag = ''a''\<rparr>, \<lparr>ID = 3, tag = ''b''\<rparr>, \<lparr>ID = 4, tag = ''c''\<rparr>]"
    unfolding gn by (rule abc_generated_entries)
  have b0: "gl_bound (gl p') 0 = 1"
    using bd [rule_format, of 0] by (simp add: abc_loaded_tags ent)
  have b1: "gl_bound (gl p') 1 = 3"
    using bd [rule_format, of 1] by (simp add: abc_loaded_tags ent)
  have b2: "gl_bound (gl p') 2 = 4"
    using bd [rule_format, of 2] by (simp add: abc_loaded_tags ent)
  have s1: "FindTextureSlot (mgr p') ''b'' = Inr 1"
    using sl [rule_format, of 1] by (simp add: abc_loaded_tags)
  show ?thesis
    using a b c b0 b1 b2 s1 rg ent by (simp add: p' abc_loaded_tags)
qed

text \<open>
  C4 as stated, for every sequence of loads, fails when a tag is used twice: of two
  textures loaded with the tag \<^verbatim>\<open>a\<close>, the second (name 2) is registered at index 1 and
  bound to unit 1, and \<^verbatim>\<open>FindTextureSlot\<close> on its tag returns 0.
\<close>

theorem slot_is_not_always_load_index:
  "\<not> isl (LoadAndBind example_files aa_loads example_process)
   \<and> registered (mgr (projr (LoadAndBind example_files aa_loads example_process)))
       = [\<lparr>ID = 1, tag = ''a''\<rparr>, \<lparr>ID = 2, tag = ''a''\<rparr>]
   \<and> gl_bound (gl (projr (LoadAndBind example_files aa_loads example_process))) 1 = 2
   \<and> FindTextureSlot (mgr (projr (LoadAndBind example_files aa_loads example_process))) ''a'' = Inr 0
   \<and> FindTextureSlot (mgr (projr (LoadAndBind example_files aa_loads example_process))) ''a'' \<noteq> Inr 1"
proof -
  have a: "m_loadedTextures (mgr example_process) = 0"
    and b: "length (loaded_tags example_files aa_loads) \<le> length (m_textureIDs (mgr example_process))"
    and c: "length (loaded_tags example_files aa_loads) \<le> gl_max_units (gl example_process)"
    by (simp_all add: example_process_start aa_loaded_tags)
  from LoadAndBind_result [OF a b c]
  obtain p' where p': "LoadAndBind example_files aa_loads example_process = Inr p'"
    and rg: "registered (mgr p') = loaded_entries example_files aa_loads example_process"
    and gn: "loaded_entries example_files aa_loads example_process
               = generated_entries example_files (gl_gen (gl example_process))
                   (gl_names (gl example_process)) aa_loads"
    and bd: "\<forall>n<length (loaded_entries example_files aa_loads example_process).
                  gl_bound (gl p') n = ID (loaded_entries example_files aa_loads example_process ! n)"
    by blast
  have ent: "loaded_entries example_files aa_loads example_process
       = [\<lparr>ID = 1, tag = ''a''\<rparr>, \<lparr>ID = 2, tag = ''a''\<rparr>]"
    unfolding gn by (rule aa_generated_entries)
  have reg: "registered (mgr p') = [\<lparr>ID = 1, tag = ''a''\<rparr>, \<lparr>ID = 2, tag = ''a''\<rparr>]"
    using rg ent by simp
  have "FindTextureSlot (mgr p') ''a'' = Inr (int 0)"
    by (rule FindTextureSlot_first) (simp_all add: reg)
  moreover have "gl_bound (gl p') 1 = 2"
    using bd [rule_format, of 1] by (simp add: ent)
  ultimately show ?thesis
    using reg by (simp add: p')
qed

section \<open>The shading state setters and a null shader manager\<close>

lemma SetShaderMaterial_null:
  assumes "m_pShaderManager s = None" and "m_objectMaterials s \<noteq> []"
  shows "SetShaderMaterial uninit materialTag s = Inl NullPointer"
  using assms by (simp add: SetShaderMaterial_def FindMaterial_def)

lemma SetShaderColor_null:
  "m_pShaderManager s = None \<Longrightarrow> SetShaderColor r g b a s = Inr s"
  by (simp add: SetShaderColor_def)

lemma SetShaderTexture_null:
  "m_pShaderManager s = None \<Longrightarrow> SetShaderTexture textureTag s = Inr s"
  by (simp add: SetShaderTexture_def)

lemma SetTextureUVScale_null:
  "m_pShaderManager s = None \<Longrightarrow> SetTextureUVScale u v s = Inr s"
  by (simp add: SetTextureUVScale_def)

lemma SetShaderMaterial_no_materials:
  "m_objectMaterials s = [] \<Longrightarrow> SetShaderMaterial uninit materialTag s = Inr s"
  by (simp add: SetShaderMaterial_def)

text \<open>
  With a shader manager attached and a tag that no material carries, \<^verbatim>\<open>SetShaderMaterial\<close>
  forwards the three fields of its local \<^verbatim>\<open>material\<close> as they were before the lookup.
\<close>

lemma SetShaderMaterial_forwards_uninitialised:
  "SetShaderMaterial uninit ''plastic'' (DefineObjectMaterials empty_manager)
     = Inr ((DefineObjectMaterials empty_manager)\<lparr>m_pShaderManager := Some
              [setVec3Value ''material.diffuseColor'' (diffuseColor uninit),
               setVec3Value ''material.specularColor'' (specularColor uninit),
               setFloatValue ''material.shininess'' (shininess uninit)]\<rparr>)"
proof -
  have a: "m_objectMaterials (DefineObjectMaterials empty_manager) \<noteq> []"
    by (simp add: DefineObjectMaterials_def)
  have b: "''plastic'' \<notin> set (map OBJECT_MATERIAL.tag
             (m_objectMaterials (DefineObjectMaterials empty_manager)))"
    by (simp add: DefineObjectMaterials_def empty_manager_def
                  glassMaterial_def metalMaterial_def woodMaterial_def)
  have "FindMaterial (DefineObjectMaterials empty_manager) ''plastic'' uninit = (True, uninit)"
    using a b by (rule FindMaterial_no_match)
  then show ?thesis
    using a by (simp add: SetShaderMaterial_def DefineObjectMaterials_def empty_manager_def)
qed

section \<open>Claim about the null check of the setters\<close>

text \<open>
  C2. The claim is that each of \<^verbatim>\<open>SetShaderColor\<close>, \<^verbatim>\<open>SetShaderTexture\<close>,
  \<^verbatim>\<open>SetTextureUVScale\<close> and \<^verbatim>\<open>SetShaderMaterial\<close> tests the shader manager pointer before it
  calls through it. On a scene manager whose pointer is null and whose materials are the
  three of \<^verbatim>\<open>DefineObjectMaterials\<close>, the first three return without a call, and
  \<^verbatim>\<open>SetShaderMaterial\<close> calls through the null pointer.
\<close>

theorem SetShaderMaterial_calls_through_null:
  "SetShaderMaterial uninit ''glass''
     ((DefineObjectMaterials empty_manager)\<lparr>m_pShaderManager := None\<rparr>) = Inl NullPointer
   \<and> SetShaderColor r g b a ((DefineObjectMaterials empty_manager)\<lparr>m_pShaderManager := None\<rparr>)
       = Inr ((DefineObjectMaterials empty_manager)\<lparr>m_pShaderManager := None\<rparr>)
   \<and> SetShaderTexture ''floor'' ((DefineObjectMaterials empty_manager)\<lparr>m_pShaderManager := None\<rparr>)
       = Inr ((DefineObjectMaterials empty_manager)\<lparr>m_pShaderManager := None\<rparr>)
   \<and> SetTextureUVScale u v ((DefineObjectMaterials empty_manager)\<lparr>m_pShaderManager := None\<rparr>)
       = Inr ((DefineObjectMaterials empty_manager)\<lparr>m_pShaderManager := None\<rparr>)"
proof -
  define s where "s = (DefineObjectMaterials empty_manager)\<lparr>m_pShaderManager := None\<rparr>"
  have n: "m_pShaderManager s = None" and m: "m_objectMaterials s \<noteq> []"
    by (simp_all add: s_def DefineObjectMaterials_def)
  show ?thesis
    unfolding s_def [symmetric]
    using SetShaderMaterial_null [OF n m] SetShaderColor_null [OF n]
          SetShaderTexture_null [OF n] SetTextureUVScale_null [OF n]
    by simp
qed

end
